theory Spec2Isabelle
  imports Complex_Main
begin

section \<open>Python values\<close>

text \<open>
  The travel planner (\<^verbatim>\<open>ai_travel_agent.py\<close>, the earlier variant, and
  \<^verbatim>\<open>ai_travel_agent_2.py\<close>, the later one) threads a dictionary of dynamically typed
  values through its stages. The values that a language model can put into that dictionary
  are the values of \<^verbatim>\<open>json.loads\<close>; they are modelled by the datatype \<open>json\<close>.

  Idealisations, fixed here once:
  \<^item> a Python \<^verbatim>\<open>float\<close> is an exact rational (\<open>JFloat\<close>); binary rounding, infinities
    and NaN are outside the model;
  \<^item> a Python \<^verbatim>\<open>str\<close> is a list of 8-bit characters;
  \<^item> a Python \<^verbatim>\<open>dict\<close> is an association list in insertion order with distinct keys.
\<close>

datatype json =
    JNull
  | JBool bool
  | JInt int
  | JFloat rat
  | JStr string
  | JArr "json list"
  | JObj "(string \<times> json) list"

type_synonym pydict = "(string \<times> json) list"

text \<open>
  Exceptions. The first three are the three ways \<^verbatim>\<open>_parse_llm_json\<close> fails (the spec's
  names): the \<^verbatim>\<open>JSONDecodeError\<close> raised when no bracket is found (it carries the whole
  text), the \<^verbatim>\<open>JSONDecodeError\<close> of \<^verbatim>\<open>json.loads\<close> (it carries the slice that
  was decoded), and the \<^verbatim>\<open>ValueError\<close> raised on a value of the wrong type.
  \<open>ProviderError\<close> stands for any exception raised by an external call.
\<close>

datatype exn =
    NoStructureFound string
  | MalformedJSON string
  | UnexpectedShape
  | ValueError
  | TypeError
  | KeyError string
  | IndexError
  | AttributeError
  | ZeroDivisionError
  | ProviderError

text \<open>\<^verbatim>\<open>d[k] = v\<close>: an existing key keeps its position, a new key goes last.\<close>

fun dict_set :: "string \<Rightarrow> json \<Rightarrow> pydict \<Rightarrow> pydict" where
  "dict_set k v [] = [(k, v)]"
| "dict_set k v ((k', v') # d) = (if k' = k then (k, v) # d else (k', v') # dict_set k v d)"

text \<open>\<^verbatim>\<open>d.get(k, default)\<close> and \<^verbatim>\<open>d[k]\<close> on a dictionary.\<close>

definition dict_get :: "pydict \<Rightarrow> string \<Rightarrow> json \<Rightarrow> json" where
  "dict_get d k dflt = (case map_of d k of None \<Rightarrow> dflt | Some v \<Rightarrow> v)"

definition dict_item :: "pydict \<Rightarrow> string \<Rightarrow> exn + json" where
  "dict_item d k = (case map_of d k of None \<Rightarrow> Inl (KeyError k) | Some v \<Rightarrow> Inr v)"

text \<open>\<^verbatim>\<open>x.get(k, default)\<close> on any value: only a dictionary has the method.\<close>

fun py_get :: "json \<Rightarrow> string \<Rightarrow> json \<Rightarrow> exn + json" where
  "py_get (JObj d) k dflt = Inr (dict_get d k dflt)"
| "py_get _ k dflt = Inl AttributeError"

text \<open>\<^verbatim>\<open>x[k]\<close> with a string key \<open>k\<close> on any value.\<close>

fun py_getitem :: "json \<Rightarrow> string \<Rightarrow> exn + json" where
  "py_getitem (JObj d) k = dict_item d k"
| "py_getitem _ k = Inl TypeError"

text \<open>\<^verbatim>\<open>x[i]\<close> with \<open>i\<close> a non-negative integer, as \<^verbatim>\<open>range(len(..))\<close> produces it.\<close>

fun py_index :: "json \<Rightarrow> nat \<Rightarrow> exn + json" where
  "py_index (JArr xs) i = (if i < length xs then Inr (xs ! i) else Inl IndexError)"
| "py_index (JStr s) i = (if i < length s then Inr (JStr [s ! i]) else Inl IndexError)"
| "py_index (JObj d) i = Inl (KeyError [])"
| "py_index _ i = Inl TypeError"

text \<open>\<^verbatim>\<open>len(x)\<close>.\<close>

fun py_len :: "json \<Rightarrow> exn + nat" where
  "py_len (JArr xs) = Inr (length xs)"
| "py_len (JStr s) = Inr (length s)"
| "py_len (JObj d) = Inr (length d)"
| "py_len _ = Inl TypeError"

text \<open>Truth value of a value, as in \<^verbatim>\<open>x if hotels else y\<close>.\<close>

fun py_truthy :: "json \<Rightarrow> bool" where
  "py_truthy JNull = False"
| "py_truthy (JBool b) = b"
| "py_truthy (JInt i) = (i \<noteq> 0)"
| "py_truthy (JFloat r) = (r \<noteq> 0)"
| "py_truthy (JStr s) = (s \<noteq> [])"
| "py_truthy (JArr xs) = (xs \<noteq> [])"
| "py_truthy (JObj d) = (d \<noteq> [])"

text \<open>
  \<^verbatim>\<open>x[:n]\<close>: lists and strings can be sliced; a dictionary, a number, a boolean and
  \<^verbatim>\<open>None\<close> raise.
\<close>

fun py_slice_to :: "nat \<Rightarrow> json \<Rightarrow> exn + json" where
  "py_slice_to n (JArr xs) = Inr (JArr (take n xs))"
| "py_slice_to n (JStr s) = Inr (JStr (take n s))"
| "py_slice_to n _ = Inl TypeError"

text \<open>
  \<^verbatim>\<open>for a in x\<close>: a list yields its elements, a string its characters, a dictionary its
  keys; nothing else is iterable.
\<close>

fun py_iter :: "json \<Rightarrow> exn + json list" where
  "py_iter (JArr xs) = Inr xs"
| "py_iter (JStr s) = Inr (map (\<lambda>c. JStr [c]) s)"
| "py_iter (JObj d) = Inr (map (\<lambda>kv. JStr (fst kv)) d)"
| "py_iter _ = Inl TypeError"

subsection \<open>Numbers\<close>

text \<open>
  \<^verbatim>\<open>isinstance(v, (int, float))\<close> holds of integers, floats and booleans
  (\<^verbatim>\<open>bool\<close> is a subclass of \<^verbatim>\<open>int\<close>). \<open>num_val\<close> is the numeric value.
\<close>

fun is_num :: "json \<Rightarrow> bool" where
  "is_num (JInt i) = True"
| "is_num (JFloat r) = True"
| "is_num (JBool b) = True"
| "is_num _ = False"

fun is_float :: "json \<Rightarrow> bool" where
  "is_float (JFloat r) = True"
| "is_float _ = False"

fun int_val :: "json \<Rightarrow> int" where
  "int_val (JInt i) = i"
| "int_val (JBool b) = (if b then 1 else 0)"
| "int_val _ = 0"

fun num_val :: "json \<Rightarrow> rat" where
  "num_val (JFloat r) = r"
| "num_val v = of_int (int_val v)"

text \<open>
  The result of \<open>+\<close>, \<open>*\<close> on two numbers: a float as soon as one operand is a float,
  an integer otherwise.
\<close>

definition mk_num :: "bool \<Rightarrow> rat \<Rightarrow> json" where
  "mk_num fl r = (if fl then JFloat r else JInt \<lfloor>r\<rfloor>)"

definition py_add :: "json \<Rightarrow> json \<Rightarrow> exn + json" where
  "py_add a b =
     (if is_num a \<and> is_num b then Inr (mk_num (is_float a \<or> is_float b) (num_val a + num_val b))
      else Inl TypeError)"

text \<open>
  \<^verbatim>\<open>a * b\<close> with a number on the left. An integer times a string or a list repeats the
  sequence; every other combination with a non-number raises.
\<close>

definition py_mul :: "json \<Rightarrow> json \<Rightarrow> exn + json" where
  "py_mul a b =
     (if is_num a \<and> is_num b then Inr (mk_num (is_float a \<or> is_float b) (num_val a * num_val b))
      else if is_num a \<and> \<not> is_float a then
        (case b of
           JStr s \<Rightarrow> Inr (JStr (concat (replicate (nat (int_val a)) s)))
         | JArr xs \<Rightarrow> Inr (JArr (concat (replicate (nat (int_val a)) xs)))
         | _ \<Rightarrow> Inl TypeError)
      else Inl TypeError)"

text \<open>\<^verbatim>\<open>a / b\<close> on numbers: always a float; a zero divisor raises.\<close>

definition py_truediv :: "json \<Rightarrow> json \<Rightarrow> exn + json" where
  "py_truediv a b =
     (if is_num a \<and> is_num b then
        (if num_val b = 0 then Inl ZeroDivisionError else Inr (JFloat (num_val a / num_val b)))
      else Inl TypeError)"

text \<open>\<^verbatim>\<open>sum(xs)\<close>: starts from the integer 0 and adds from the left.\<close>

fun py_sum_from :: "json \<Rightarrow> json list \<Rightarrow> exn + json" where
  "py_sum_from acc [] = Inr acc"
| "py_sum_from acc (x # xs) =
     (case py_add acc x of Inl e \<Rightarrow> Inl e | Inr acc' \<Rightarrow> py_sum_from acc' xs)"

definition py_sum :: "json list \<Rightarrow> exn + json" where
  "py_sum xs = py_sum_from (JInt 0) xs"

text \<open>
  \<^verbatim>\<open>round(x, 2)\<close>: an integer is returned unchanged, a float is rounded to the nearest
  multiple of 1/100, ties to the even one.
\<close>

definition round_half_even :: "rat \<Rightarrow> int" where
  "round_half_even x =
     (let f = \<lfloor>x\<rfloor>; d = x - of_int f
      in if d < 1/2 then f else if 1/2 < d then f + 1 else if even f then f else f + 1)"

definition round2 :: "rat \<Rightarrow> rat" where
  "round2 x = of_int (round_half_even (x * 100)) / 100"

fun py_round2 :: "json \<Rightarrow> json" where
  "py_round2 (JFloat r) = JFloat (round2 r)"
| "py_round2 v = JInt (int_val v)"

text \<open>\<^verbatim>\<open>s.upper()\<close> on the ASCII letters.\<close>

definition upper_char :: "char \<Rightarrow> char" where
  "upper_char c =
     (let n = (of_char c :: nat) in if 97 \<le> n \<and> n \<le> 122 then char_of (n - 32) else c)"

definition py_upper :: "string \<Rightarrow> string" where
  "py_upper s = map upper_char s"

section \<open>The decoder \<^verbatim>\<open>json.loads\<close>\<close>

text \<open>
  \<^verbatim>\<open>json.loads\<close> belongs to Python's standard library, not to the repository. It is
  modelled here from its documented behaviour: the whole text must be one JSON value,
  with white space allowed around it and between tokens; anything after the value
  (\<^verbatim>\<open>Extra data\<close>) is an error. The model is a scanner that reads one character at a
  time and a parser that reads one token at a time, so both are total by construction.
  Escapes \<^verbatim>\<open>\uXXXX\<close> above code point 255 and the literals \<^verbatim>\<open>NaN\<close> and
  \<^verbatim>\<open>Infinity\<close> have no value in the model and are rejected.
\<close>

datatype token =
    TLBrace | TRBrace | TLBrack | TRBrack | TColon | TComma
  | TVal json
  | TStr string

datatype lstate =
    LTop
  | LStr string
  | LEsc string
  | LUni string string
  | LNum string
  | LWord string

definition is_ws :: "char \<Rightarrow> bool" where
  "is_ws c = (c = CHR '' '' \<or> c = CHR 0x09 \<or> c = CHR 0x0A \<or> c = CHR 0x0D)"

definition is_digit :: "char \<Rightarrow> bool" where
  "is_digit c = (let n = (of_char c :: nat) in 48 \<le> n \<and> n \<le> 57)"

definition digit_val :: "char \<Rightarrow> int" where
  "digit_val c = (of_char c :: int) - 48"

definition is_alpha :: "char \<Rightarrow> bool" where
  "is_alpha c = (let n = (of_char c :: nat) in (65 \<le> n \<and> n \<le> 90) \<or> (97 \<le> n \<and> n \<le> 122))"

definition is_num_char :: "char \<Rightarrow> bool" where
  "is_num_char c =
     (is_digit c \<or> c = CHR ''.'' \<or> c = CHR ''e'' \<or> c = CHR ''E'' \<or> c = CHR ''+'' \<or> c = CHR ''-'')"

definition hex_val :: "char \<Rightarrow> nat option" where
  "hex_val c =
     (let n = (of_char c :: nat)
      in if 48 \<le> n \<and> n \<le> 57 then Some (n - 48)
         else if 65 \<le> n \<and> n \<le> 70 then Some (n - 55)
         else if 97 \<le> n \<and> n \<le> 102 then Some (n - 87)
         else None)"

fun digits_val :: "int \<Rightarrow> string \<Rightarrow> int" where
  "digits_val acc [] = acc"
| "digits_val acc (c # cs) = digits_val (10 * acc + digit_val c) cs"

text \<open>
  A number lexeme: \<^verbatim>\<open>-?(0|[1-9][0-9]*)(\.[0-9]+)?([eE][+-]?[0-9]+)?\<close>. Without fraction and
  exponent it is an \<^verbatim>\<open>int\<close>, otherwise a \<^verbatim>\<open>float\<close>.
\<close>

definition num_token :: "string \<Rightarrow> json option" where
  "num_token s =
     (let neg = (s \<noteq> [] \<and> hd s = CHR ''-'');
          s1 = (if neg then tl s else s);
          ip = takeWhile is_digit s1;
          r1 = dropWhile is_digit s1;
          has_frac = (r1 \<noteq> [] \<and> hd r1 = CHR ''.'');
          fp = (if has_frac then takeWhile is_digit (tl r1) else []);
          r2 = (if has_frac then dropWhile is_digit (tl r1) else r1);
          has_exp = (r2 \<noteq> [] \<and> (hd r2 = CHR ''e'' \<or> hd r2 = CHR ''E''));
          r3 = (if has_exp then tl r2 else r2);
          eneg = (has_exp \<and> r3 \<noteq> [] \<and> hd r3 = CHR ''-'');
          r4 = (if has_exp \<and> r3 \<noteq> [] \<and> (hd r3 = CHR ''-'' \<or> hd r3 = CHR ''+'') then tl r3 else r3);
          ep = (if has_exp then takeWhile is_digit r4 else []);
          r5 = (if has_exp then dropWhile is_digit r4 else r4);
          sg = (if neg then - 1 else 1 :: int)
      in if ip = [] \<or> (1 < length ip \<and> hd ip = CHR ''0'') then None
         else if has_frac \<and> fp = [] then None
         else if has_exp \<and> ep = [] then None
         else if r5 \<noteq> [] then None
         else if \<not> has_frac \<and> \<not> has_exp then Some (JInt (sg * digits_val 0 ip))
         else
           (let m = (of_int (digits_val 0 (ip @ fp)) :: rat) / 10 ^ length fp;
                e = nat (digits_val 0 ep)
            in Some (JFloat (of_int sg * (if eneg then m / 10 ^ e else m * 10 ^ e)))))"

definition word_token :: "string \<Rightarrow> json option" where
  "word_token s =
     (if s = ''true'' then Some (JBool True)
      else if s = ''false'' then Some (JBool False)
      else if s = ''null'' then Some JNull
      else None)"

text \<open>The first character of a token.\<close>

definition lstart :: "char \<Rightarrow> (token list \<times> lstate) option" where
  "lstart c =
     (if is_ws c then Some ([], LTop)
      else if c = CHR ''{'' then Some ([TLBrace], LTop)
      else if c = CHR ''}'' then Some ([TRBrace], LTop)
      else if c = CHR ''['' then Some ([TLBrack], LTop)
      else if c = CHR '']'' then Some ([TRBrack], LTop)
      else if c = CHR '':'' then Some ([TColon], LTop)
      else if c = CHR '','' then Some ([TComma], LTop)
      else if c = CHR 0x22 then Some ([], LStr [])
      else if c = CHR ''-'' \<or> is_digit c then Some ([], LNum [c])
      else if is_alpha c then Some ([], LWord [c])
      else None)"

definition unescape :: "char \<Rightarrow> char option" where
  "unescape c =
     (if c = CHR 0x22 \<or> c = CHR 0x5C \<or> c = CHR ''/'' then Some c
      else if c = CHR ''b'' then Some (CHR 0x08)
      else if c = CHR ''f'' then Some (CHR 0x0C)
      else if c = CHR ''n'' then Some (CHR 0x0A)
      else if c = CHR ''r'' then Some (CHR 0x0D)
      else if c = CHR ''t'' then Some (CHR 0x09)
      else None)"

text \<open>
  One step of the scanner. String contents are accumulated in reverse. A number or a word
  ends at the first character that cannot continue it; that character then starts the
  next token.
\<close>

fun lstep :: "lstate \<Rightarrow> char \<Rightarrow> (token list \<times> lstate) option" where
  "lstep LTop c = lstart c"
| "lstep (LStr acc) c =
     (if c = CHR 0x22 then Some ([TStr (rev acc)], LTop)
      else if c = CHR 0x5C then Some ([], LEsc acc)
      else if (of_char c :: nat) < 32 then None
      else Some ([], LStr (c # acc)))"
| "lstep (LEsc acc) c =
     (if c = CHR ''u'' then Some ([], LUni acc [])
      else (case unescape c of None \<Rightarrow> None | Some d \<Rightarrow> Some ([], LStr (d # acc))))"
| "lstep (LUni acc hs) c =
     (case hex_val c of
        None \<Rightarrow> None
      | Some h \<Rightarrow>
          (if length hs < 3 then Some ([], LUni acc (hs @ [c]))
           else
             (let n = fold (\<lambda>x a. 16 * a + (case hex_val x of None \<Rightarrow> 0 | Some d \<Rightarrow> d)) (hs @ [c]) (0::nat)
              in if n < 256 then Some ([], LStr (char_of n # acc)) else None)))"
| "lstep (LNum acc) c =
     (if is_num_char c then Some ([], LNum (c # acc))
      else
        (case num_token (rev acc) of
           None \<Rightarrow> None
         | Some v \<Rightarrow>
             (case lstart c of None \<Rightarrow> None | Some (ts, st) \<Rightarrow> Some (TVal v # ts, st))))"
| "lstep (LWord acc) c =
     (if is_alpha c then Some ([], LWord (c # acc))
      else
        (case word_token (rev acc) of
           None \<Rightarrow> None
         | Some v \<Rightarrow>
             (case lstart c of None \<Rightarrow> None | Some (ts, st) \<Rightarrow> Some (TVal v # ts, st))))"

text \<open>The end of the text.\<close>

fun lfinish :: "lstate \<Rightarrow> token list option" where
  "lfinish LTop = Some []"
| "lfinish (LNum acc) = map_option (\<lambda>v. [TVal v]) (num_token (rev acc))"
| "lfinish (LWord acc) = map_option (\<lambda>v. [TVal v]) (word_token (rev acc))"
| "lfinish _ = None"

fun lex :: "lstate \<Rightarrow> string \<Rightarrow> token list option" where
  "lex st [] = lfinish st"
| "lex st (c # cs) =
     (case lstep st c of
        None \<Rightarrow> None
      | Some (ts, st') \<Rightarrow> map_option (\<lambda>rest. ts @ rest) (lex st' cs))"

text \<open>
  The parser keeps a stack of the containers that are open: an array with the elements
  read so far (in reverse), or an object with the members read so far and the key whose
  value is being read.
\<close>

datatype frame =
    FArr "json list"
  | FObj pydict string

datatype pstate =
    WantValue "frame list"
  | ArrFirst "frame list"
  | AfterElem "json list" "frame list"
  | ObjFirst "frame list"
  | WantKey pydict "frame list"
  | WantColon pydict string "frame list"
  | AfterMember pydict "frame list"
  | Done json

text \<open>A value is complete: it goes into the innermost open container.\<close>

fun complete :: "json \<Rightarrow> frame list \<Rightarrow> pstate" where
  "complete v [] = Done v"
| "complete v (FArr acc # st) = AfterElem (v # acc) st"
| "complete v (FObj d k # st) = AfterMember (dict_set k v d) st"

fun want_value :: "frame list \<Rightarrow> token \<Rightarrow> pstate option" where
  "want_value st (TVal v) = Some (complete v st)"
| "want_value st (TStr s) = Some (complete (JStr s) st)"
| "want_value st TLBrack = Some (ArrFirst st)"
| "want_value st TLBrace = Some (ObjFirst st)"
| "want_value st _ = None"

fun pstep :: "pstate \<Rightarrow> token \<Rightarrow> pstate option" where
  "pstep (WantValue st) t = want_value st t"
| "pstep (ArrFirst st) t =
     (if t = TRBrack then Some (complete (JArr []) st) else want_value (FArr [] # st) t)"
| "pstep (AfterElem acc st) t =
     (if t = TComma then Some (WantValue (FArr acc # st))
      else if t = TRBrack then Some (complete (JArr (rev acc)) st)
      else None)"
| "pstep (ObjFirst st) t =
     (case t of
        TRBrace \<Rightarrow> Some (complete (JObj []) st)
      | TStr k \<Rightarrow> Some (WantColon [] k st)
      | _ \<Rightarrow> None)"
| "pstep (WantKey d st) t = (case t of TStr k \<Rightarrow> Some (WantColon d k st) | _ \<Rightarrow> None)"
| "pstep (WantColon d k st) t = (if t = TColon then Some (WantValue (FObj d k # st)) else None)"
| "pstep (AfterMember d st) t =
     (if t = TComma then Some (WantKey d st)
      else if t = TRBrace then Some (complete (JObj d) st)
      else None)"
| "pstep (Done v) t = None"

fun parse :: "pstate \<Rightarrow> token list \<Rightarrow> json option" where
  "parse (Done v) [] = Some v"
| "parse _ [] = None"
| "parse ps (t # ts) = (case pstep ps t of None \<Rightarrow> None | Some ps' \<Rightarrow> parse ps' ts)"

definition json_loads :: "string \<Rightarrow> json option" where
  "json_loads s = (case lex LTop s of None \<Rightarrow> None | Some ts \<Rightarrow> parse (WantValue []) ts)"

section \<open>Dates\<close>

text \<open>
  \<^verbatim>\<open>datetime.strptime(s, "%Y-%m-%d")\<close> and \<^verbatim>\<open>strftime("%Y-%m-%d")\<close> also belong to
  the standard library. A \<^verbatim>\<open>datetime\<close> at midnight is modelled by its proleptic
  Gregorian ordinal (day 1 is 0001-01-01), so that \<^verbatim>\<open>(end - start).days\<close> is the
  difference of two ordinals. The accepted texts are four digits, a dash, a month
  \<^verbatim>\<open>1[0-2]|0[1-9]|[1-9]\<close>, a dash and a day \<^verbatim>\<open>3[01]|[12][0-9]|0[1-9]|[1-9]| [1-9]\<close>,
  with nothing after; the date must exist.
\<close>

definition is_leap :: "int \<Rightarrow> bool" where
  "is_leap y = (y mod 4 = 0 \<and> (y mod 100 \<noteq> 0 \<or> y mod 400 = 0))"

definition days_in_month :: "int \<Rightarrow> int \<Rightarrow> int" where
  "days_in_month y m =
     (if m = 2 then (if is_leap y then 29 else 28)
      else if m = 4 \<or> m = 6 \<or> m = 9 \<or> m = 11 then 30 else 31)"

definition days_before_year :: "int \<Rightarrow> int" where
  "days_before_year y = (y - 1) * 365 + (y - 1) div 4 - (y - 1) div 100 + (y - 1) div 400"

definition days_before_month :: "int \<Rightarrow> int \<Rightarrow> int" where
  "days_before_month y m = sum_list (map (days_in_month y) [1 .. m - 1])"

definition ymd2ord :: "int \<Rightarrow> int \<Rightarrow> int \<Rightarrow> int" where
  "ymd2ord y m d = days_before_year y + days_before_month y m + d"

definition nonzero_digit :: "char \<Rightarrow> bool" where
  "nonzero_digit c = (is_digit c \<and> c \<noteq> CHR ''0'')"

definition month_field :: "string \<Rightarrow> int option" where
  "month_field s =
     (case s of
        [a] \<Rightarrow> if nonzero_digit a then Some (digit_val a) else None
      | [a, b] \<Rightarrow>
          if a = CHR ''0'' \<and> nonzero_digit b then Some (digit_val b)
          else if a = CHR ''1'' \<and> (b = CHR ''0'' \<or> b = CHR ''1'' \<or> b = CHR ''2'')
            then Some (10 + digit_val b)
          else None
      | _ \<Rightarrow> None)"

definition day_field :: "string \<Rightarrow> int option" where
  "day_field s =
     (case s of
        [a] \<Rightarrow> if nonzero_digit a then Some (digit_val a) else None
      | [a, b] \<Rightarrow>
          if (a = CHR ''0'' \<or> a = CHR '' '') \<and> nonzero_digit b then Some (digit_val b)
          else if (a = CHR ''1'' \<or> a = CHR ''2'') \<and> is_digit b
            then Some (10 * digit_val a + digit_val b)
          else if a = CHR ''3'' \<and> (b = CHR ''0'' \<or> b = CHR ''1'') then Some (30 + digit_val b)
          else None
      | _ \<Rightarrow> None)"

definition strptime_ymd :: "string \<Rightarrow> exn + int" where
  "strptime_ymd s =
     (let ys = take 4 s; r = drop 4 s
      in if length ys \<noteq> 4 \<or> \<not> list_all is_digit ys \<or> r = [] \<or> hd r \<noteq> CHR ''-'' then Inl ValueError
         else
           (let r1 = tl r; ms = takeWhile (\<lambda>c. c \<noteq> CHR ''-'') r1;
                r2 = dropWhile (\<lambda>c. c \<noteq> CHR ''-'') r1
            in if r2 = [] then Inl ValueError
               else
                 (case (month_field ms, day_field (tl r2)) of
                    (Some m, Some d) \<Rightarrow>
                      (let y = digits_val 0 ys
                       in if y < 1 \<or> days_in_month y m < d then Inl ValueError
                          else Inr (ymd2ord y m d))
                  | _ \<Rightarrow> Inl ValueError)))"

text \<open>The ordinal back to year, month and day, as \<^verbatim>\<open>datetime\<close> computes it.\<close>

fun month_of_yday :: "int \<Rightarrow> int \<Rightarrow> nat \<Rightarrow> int \<Rightarrow> int \<times> int" where
  "month_of_yday y n 0 m = (m, n + 1)"
| "month_of_yday y n (Suc k) m =
     (if n < days_in_month y m then (m, n + 1)
      else month_of_yday y (n - days_in_month y m) k (m + 1))"

definition ord2ymd :: "int \<Rightarrow> int \<times> int \<times> int" where
  "ord2ymd n0 =
     (let n = n0 - 1;
          n400 = n div 146097; a = n mod 146097;
          n100 = a div 36524; b = a mod 36524;
          n4 = b div 1461; c = b mod 1461;
          n1 = c div 365; d = c mod 365;
          y = n400 * 400 + 1 + n100 * 100 + n4 * 4 + n1
      in if n1 = 4 \<or> n100 = 4 then (y - 1, 12, 31)
         else (let (m, dd) = month_of_yday y d 11 1 in (y, m, dd)))"

definition digit_char :: "int \<Rightarrow> char" where
  "digit_char n = char_of (48 + nat (n mod 10))"

definition strftime_ymd :: "int \<Rightarrow> string" where
  "strftime_ymd n =
     (let (y, m, d) = ord2ymd n
      in [digit_char (y div 1000), digit_char (y div 100), digit_char (y div 10), digit_char y,
          CHR ''-'', digit_char (m div 10), digit_char m,
          CHR ''-'', digit_char (d div 10), digit_char d])"

section \<open>The shared state\<close>

text \<open>
  Sequencing of fallible steps: the first exception ends the computation, as a
  \<^verbatim>\<open>raise\<close> does.
\<close>

definition then_do :: "exn + 'a \<Rightarrow> ('a \<Rightarrow> exn + 'b) \<Rightarrow> exn + 'b" where
  "then_do m f = (case m of Inl e \<Rightarrow> Inl e | Inr x \<Rightarrow> f x)"

fun traverse :: "('a \<Rightarrow> exn + 'b) \<Rightarrow> 'a list \<Rightarrow> exn + 'b list" where
  "traverse f [] = Inr []"
| "traverse f (x # xs) = then_do (f x) (\<lambda>y. then_do (traverse f xs) (\<lambda>ys. Inr (y # ys)))"

text \<open>
  The request. \<^verbatim>\<open>TripRequest\<close> of the earlier variant is a dataclass with these
  fields; the later variant takes a dictionary with the same keys.
\<close>

record trip_request =
  destination :: string
  start_date :: string
  end_date :: string
  budget :: rat
  currency :: string
  travelers :: int
  preferences :: "string list"

text \<open>
  \<^verbatim>\<open>weather_info\<close>. The later variant stores the text of a value
  \<open>t\<close> followed by the degree sign; the text of a float is not modelled, so the value itself is kept
  (\<open>Degrees t\<close>). \<open>WeatherDict\<close> is a plain dictionary: the initial \<^verbatim>\<open>{}\<close> and
  what the earlier variant stores.
\<close>

datatype temp_text = NotAvailable | Degrees json

datatype weather =
    WeatherDict pydict
  | Report temp_text "json list" "string list"

text \<open>
  \<^verbatim>\<open>summary\<close>: a text, or the fallback template of the earlier variant filled from
  the request and the expenses (its numbers are printed with \<^verbatim>\<open>:.2f\<close>, which is not
  modelled).
\<close>

datatype summary_text =
    Text string
  | BasicSummary trip_request pydict

text \<open>\<^verbatim>\<open>TravelState\<close> of the later variant; the earlier one has two more keys.\<close>

record travel_state =
  trip_request :: trip_request
  weather_info :: weather
  attractions :: json
  hotels :: json
  expenses :: pydict
  itinerary :: json
  summary :: summary_text
  errors :: "string list"

record travel_state_v1 = travel_state +
  currency_rates :: pydict
  current_step :: string

text \<open>\<^verbatim>\<open>(end - start).days\<close>; a date that does not parse raises \<^verbatim>\<open>ValueError\<close>.\<close>

definition date_diff :: "trip_request \<Rightarrow> exn + int" where
  "date_diff req =
     then_do (strptime_ymd (start_date req)) (\<lambda>s.
     then_do (strptime_ymd (end_date req)) (\<lambda>e. Inr (e - s)))"

section \<open>The later variant (\<^verbatim>\<open>ai_travel_agent_2.py\<close>)\<close>

subsection \<open>\<^verbatim>\<open>_parse_llm_json\<close>\<close>

text \<open>\<^verbatim>\<open>s.find(c)\<close>: the index of the first occurrence, or -1.\<close>

definition py_find :: "char \<Rightarrow> string \<Rightarrow> int" where
  "py_find c s =
     (let n = length (takeWhile (\<lambda>x. x \<noteq> c) s) in if n = length s then - 1 else int n)"

text \<open>The callers pass \<^verbatim>\<open>list\<close>; the default is \<^verbatim>\<open>dict\<close>.\<close>

datatype expected_type = ExpectDict | ExpectList

fun isinstance :: "json \<Rightarrow> expected_type \<Rightarrow> bool" where
  "isinstance (JObj d) ExpectDict = True"
| "isinstance (JArr xs) ExpectList = True"
| "isinstance _ _ = False"

definition json_start :: "string \<Rightarrow> int" where
  "json_start response_content =
     (let obj_start = py_find (CHR ''{'') response_content;
          arr_start = py_find (CHR ''['') response_content
      in if obj_start \<noteq> - 1 \<and> arr_start \<noteq> - 1 then min obj_start arr_start
         else if obj_start \<noteq> - 1 then obj_start
         else if arr_start \<noteq> - 1 then arr_start
         else - 1)"

definition parse_llm_json :: "string \<Rightarrow> expected_type \<Rightarrow> exn + json" where
  "parse_llm_json response_content expected =
     (if json_start response_content = - 1 then Inl (NoStructureFound response_content)
      else
        (let json_str = drop (nat (json_start response_content)) response_content
         in case json_loads json_str of
              None \<Rightarrow> Inl (MalformedJSON json_str)
            | Some parsed_json \<Rightarrow>
                if \<not> isinstance parsed_json expected then Inl UnexpectedShape
                else Inr parsed_json))"

subsection \<open>The environment\<close>

text \<open>
  What the outside world answers during one run: the outcome of the geocoding block
  (latitude and longitude), the reply of the weather service for given coordinates, and
  for each stage that asks the language model the outcome of \<^verbatim>\<open>chain.invoke\<close>: an
  exception or the text of the reply. \<^verbatim>\<open>_search_web\<close> catches every exception and
  returns a text that only enters the prompt, so it has no field here.
\<close>

record env =
  geo_lookup :: "exn + rat \<times> rat"
  weather_fetch :: "rat \<times> rat \<Rightarrow> exn + json"
  attractions_reply :: "exn + string"
  hotels_reply :: "exn + string"
  itinerary_reply :: "exn + string"
  summary_reply :: "exn + string"

subsection \<open>\<^verbatim>\<open>WeatherAgent\<close>\<close>

definition forecast_entry :: "json \<Rightarrow> nat \<Rightarrow> exn + json" where
  "forecast_entry daily i =
     then_do (py_getitem daily ''time'') (\<lambda>ts.
     then_do (py_index ts i) (\<lambda>date.
     then_do (py_getitem daily ''temperature_2m_max'') (\<lambda>ms.
     then_do (py_index ms i) (\<lambda>mx.
     Inr (JObj [(''date'', date), (''max_temp'', mx)])))))"

definition weather_report :: "json \<Rightarrow> exn + weather" where
  "weather_report weather_data =
     then_do (py_getitem weather_data ''daily'') (\<lambda>daily.
     then_do (py_get weather_data ''current'' (JObj [])) (\<lambda>cur.
     then_do (py_get cur ''temperature_2m'' (JStr ''N/A'')) (\<lambda>t.
     then_do (py_getitem daily ''time'') (\<lambda>ts.
     then_do (py_len ts) (\<lambda>n.
     then_do (traverse (forecast_entry daily) [0 ..< n]) (\<lambda>fc.
     Inr (Report (Degrees t) fc
            [''Pack layers for changing weather.'', ''An umbrella is recommended.''])))))))"

definition weather_fallback :: weather where
  "weather_fallback = Report NotAvailable [] [''Weather data unavailable.'']"

text \<open>
  The first \<^verbatim>\<open>try\<close> looks the destination up and falls back to fixed coordinates
  without a diagnostic; the second one is the forecast request and its processing.
\<close>

definition weather_try :: "env \<Rightarrow> exn + weather" where
  "weather_try w =
     (let coords = (case geo_lookup w of Inl e \<Rightarrow> (48.8566, 2.3522) | Inr p \<Rightarrow> p)
      in then_do (weather_fetch w coords) weather_report)"

definition weather_agent :: "env \<Rightarrow> travel_state \<Rightarrow> travel_state" where
  "weather_agent w state =
     (case weather_try w of
        Inr info \<Rightarrow> state\<lparr>weather_info := info\<rparr>
      | Inl e \<Rightarrow>
          state\<lparr>weather_info := weather_fallback,
                errors := errors state @ [''WeatherAgent: Failed to retrieve data.'']\<rparr>)"

subsection \<open>\<^verbatim>\<open>AttractionAgent\<close> and \<^verbatim>\<open>HotelAgent\<close>\<close>

definition attractions_fallback :: json where
  "attractions_fallback =
     JArr [JObj [(''name'', JStr ''Eiffel Tower''),
                 (''description'', JStr ''Iconic landmark of Paris.''),
                 (''price'', JFloat 28),
                 (''category'', JStr ''attraction'')]]"

text \<open>The reply of the model, passed to \<^verbatim>\<open>_parse_llm_json(.., list)\<close>.\<close>

definition parse_reply :: "exn + string \<Rightarrow> exn + json" where
  "parse_reply r = then_do r (\<lambda>content. parse_llm_json content ExpectList)"

definition attraction_agent :: "env \<Rightarrow> travel_state \<Rightarrow> travel_state" where
  "attraction_agent w state =
     (case parse_reply (attractions_reply w) of
        Inr v \<Rightarrow> state\<lparr>attractions := v\<rparr>
      | Inl e \<Rightarrow>
          state\<lparr>attractions := attractions_fallback,
                errors := errors state @ [''AttractionAgent: Failed to parse LLM response.'']\<rparr>)"

definition hotels_fallback :: json where
  "hotels_fallback =
     JArr [JObj [(''name'', JStr ''The Ritz Paris''), (''price_per_night'', JFloat 2000)]]"

definition hotel_agent :: "env \<Rightarrow> travel_state \<Rightarrow> travel_state" where
  "hotel_agent w state =
     (case parse_reply (hotels_reply w) of
        Inr v \<Rightarrow> state\<lparr>hotels := v\<rparr>
      | Inl e \<Rightarrow>
          state\<lparr>hotels := hotels_fallback,
                errors := errors state @ [''HotelAgent: Failed to parse LLM response.'']\<rparr>)"

subsection \<open>\<^verbatim>\<open>CostCalculatorAgent\<close>\<close>

text \<open>
  The prices of the hotels whose \<^verbatim>\<open>price_per_night\<close> is a number. \<^verbatim>\<open>h.get\<close> raises
  on an element that is not a dictionary.
\<close>

fun hotel_prices :: "json list \<Rightarrow> exn + json list" where
  "hotel_prices [] = Inr []"
| "hotel_prices (h # hs) =
     then_do (py_get h ''price_per_night'' JNull) (\<lambda>p.
     then_do (hotel_prices hs) (\<lambda>ps. Inr (if is_num p then p # ps else ps)))"

text \<open>\<^verbatim>\<open>sum(a.get('price', 25.0) for a in attractions)\<close>, element by element.\<close>

fun sum_prices :: "json \<Rightarrow> json list \<Rightarrow> exn + json" where
  "sum_prices acc [] = Inr acc"
| "sum_prices acc (a # as) =
     then_do (py_get a ''price'' (JFloat 25)) (\<lambda>p.
     then_do (py_add acc p) (\<lambda>acc'. sum_prices acc' as))"

text \<open>
  The arithmetic of the stage, on the day count, the numeric hotel prices, the sum of the
  attraction prices (a number) and the traveller count.
\<close>

definition expense_breakdown :: "int \<Rightarrow> json list \<Rightarrow> json \<Rightarrow> int \<Rightarrow> pydict" where
  "expense_breakdown days prices price_sum n =
     (let avg_hotel_price =
            (if prices \<noteq> [] then sum_list (map num_val prices) / of_nat (length prices) else 200);
          accommodation_cost = avg_hotel_price * of_int days;
          food_cost = 80 * of_int days * of_int n;
          transport_cost = 30 * of_int days * of_int n;
          activities_cost = mk_num (is_float price_sum) (num_val price_sum * of_int n);
          total_cost = accommodation_cost + food_cost + transport_cost + num_val activities_cost
      in [(''accommodation'', JFloat (round2 accommodation_cost)),
          (''food'', JFloat (round2 food_cost)),
          (''transportation'', JFloat (round2 transport_cost)),
          (''activities'', py_round2 activities_cost),
          (''total'', JFloat (round2 total_cost)),
          (''days'', JInt days),
          (''daily_budget'', JFloat (round2 (total_cost / of_int days)))])"

definition cost_calculator_agent :: "travel_state \<Rightarrow> exn + travel_state" where
  "cost_calculator_agent state =
     (let req = trip_request state in
      then_do (date_diff req) (\<lambda>diff.
      then_do (py_iter (hotels state)) (\<lambda>hs.
      then_do (hotel_prices hs) (\<lambda>prices.
      then_do (py_iter (attractions state)) (\<lambda>as.
      then_do (sum_prices (JInt 0) as) (\<lambda>price_sum.
      Inr (state\<lparr>expenses :=
                  expense_breakdown (max 1 diff) prices price_sum (travelers req)\<rparr>)))))))"

subsection \<open>\<^verbatim>\<open>ItineraryAgent\<close>\<close>

definition itinerary_fallback :: "travel_state \<Rightarrow> json" where
  "itinerary_fallback state =
     JArr [JObj [(''day'', JInt 1),
                 (''date'', JStr (start_date (trip_request state))),
                 (''activities'', JArr [JStr ''Arrival and explore.'']),
                 (''meals'', JArr [JStr ''Dinner at a local bistro.''])]]"

text \<open>
  The arguments of \<^verbatim>\<open>chain.invoke\<close> are built inside the \<^verbatim>\<open>try\<close>: a missing
  \<^verbatim>\<open>days\<close> or \<^verbatim>\<open>daily_budget\<close> is a \<^verbatim>\<open>KeyError\<close> there.
\<close>

definition itinerary_try :: "env \<Rightarrow> travel_state \<Rightarrow> exn + json" where
  "itinerary_try w state =
     then_do (dict_item (expenses state) ''days'') (\<lambda>days.
     then_do (dict_item (expenses state) ''daily_budget'') (\<lambda>daily_budget.
     parse_reply (itinerary_reply w)))"

definition itinerary_agent :: "env \<Rightarrow> travel_state \<Rightarrow> travel_state" where
  "itinerary_agent w state =
     (case itinerary_try w state of
        Inr v \<Rightarrow> state\<lparr>itinerary := v\<rparr>
      | Inl e \<Rightarrow>
          state\<lparr>itinerary := itinerary_fallback state,
                errors := errors state @ [''ItineraryAgent: Failed to parse LLM response.'']\<rparr>)"

subsection \<open>\<^verbatim>\<open>SummaryAgent\<close>\<close>

text \<open>
  Before the \<^verbatim>\<open>try\<close>, the itinerary is printed day by day: \<^verbatim>\<open>day.get\<close> needs a
  dictionary, and \<^verbatim>\<open>", ".join\<close> needs an iterable of strings.
\<close>

fun is_str :: "json \<Rightarrow> bool" where
  "is_str (JStr s) = True"
| "is_str _ = False"

definition join_check :: "json \<Rightarrow> exn + unit" where
  "join_check v =
     then_do (py_iter v) (\<lambda>xs. if list_all is_str xs then Inr () else Inl TypeError)"

definition day_check :: "json \<Rightarrow> exn + unit" where
  "day_check day =
     then_do (py_get day ''day'' JNull) (\<lambda>d.
     then_do (py_get day ''date'' JNull) (\<lambda>dt.
     then_do (py_get day ''activities'' (JArr [])) (\<lambda>acts.
     then_do (join_check acts) (\<lambda>u.
     then_do (py_get day ''meals'' (JArr [])) (\<lambda>meals. join_check meals)))))"

definition summary_fallback :: summary_text where
  "summary_fallback =
     Text (''# Travel Plan Summary (Error)'' @ [CHR 0x0A] @
           ''An error occurred while generating the detailed summary.'')"

definition summary_agent :: "env \<Rightarrow> travel_state \<Rightarrow> exn + travel_state" where
  "summary_agent w state =
     then_do (py_iter (itinerary state)) (\<lambda>days.
     then_do (traverse day_check days) (\<lambda>us.
     (case summary_reply w of
        Inr content \<Rightarrow> Inr (state\<lparr>summary := Text content\<rparr>)
      | Inl e \<Rightarrow>
          Inr (state\<lparr>summary := summary_fallback,
                     errors := errors state @ [''SummaryAgent: Failed to generate summary.'']\<rparr>))))"

subsection \<open>\<^verbatim>\<open>AITravelAgent.plan_trip\<close>\<close>

definition initial_state :: "trip_request \<Rightarrow> travel_state" where
  "initial_state req =
     \<lparr>trip_request = req, weather_info = WeatherDict [], attractions = JArr [],
      hotels = JArr [], expenses = [], itinerary = JArr [], summary = Text [], errors = []\<rparr>"

text \<open>
  The graph is the chain weather, attractions, hotels, costs, itinerary, summary; an
  exception in a node leaves \<^verbatim>\<open>workflow.invoke\<close> and \<^verbatim>\<open>plan_trip\<close>, which has no
  handler.
\<close>

definition plan_trip :: "env \<Rightarrow> trip_request \<Rightarrow> exn + travel_state" where
  "plan_trip w req =
     then_do (cost_calculator_agent
                (hotel_agent w (attraction_agent w (weather_agent w (initial_state req)))))
       (\<lambda>state. summary_agent w (itinerary_agent w state))"

section \<open>The earlier variant (\<^verbatim>\<open>ai_travel_agent.py\<close>)\<close>

text \<open>
  The environment of a run of the earlier variant. \<^verbatim>\<open>WeatherAgent.execute\<close> wraps
  all its work in \<^verbatim>\<open>try/except Exception\<close> and assigns a dictionary computed from
  the network replies on every path; that dictionary is \<open>weather_result\<close>. The other
  fields are the outcomes of \<^verbatim>\<open>self.llm.invoke(..)\<close> in each stage. Building a prompt
  from its f-string is taken not to raise by itself, apart from the slicing and the
  number formatting written out below.
\<close>

record env_v1 =
  weather_result :: weather
  attractions_response :: "exn + string"
  hotels_response :: "exn + string"
  currency_response :: "exn + string"
  itinerary_response :: "exn + string"
  summary_response :: "exn + string"

text \<open>\<^verbatim>\<open>json.loads(response.content)\<close> inside a \<^verbatim>\<open>try\<close>.\<close>

definition loads_response :: "exn + string \<Rightarrow> exn + json" where
  "loads_response r =
     then_do r (\<lambda>content.
       case json_loads content of None \<Rightarrow> Inl (MalformedJSON content) | Some v \<Rightarrow> Inr v)"

definition weather_agent_v1 :: "env_v1 \<Rightarrow> travel_state_v1 \<Rightarrow> travel_state_v1" where
  "weather_agent_v1 w state =
     state\<lparr>weather_info := weather_result w, current_step := ''weather_completed''\<rparr>"

definition attractions_fallback_v1 :: "string \<Rightarrow> json" where
  "attractions_fallback_v1 dest =
     JArr [JObj [(''name'', JStr ''Local Exploration''),
                 (''description'', JStr ''Explore the local area''),
                 (''rating'', JFloat 4),
                 (''price'', JInt 0),
                 (''category'', JStr ''sightseeing''),
                 (''location'', JStr dest)]]"

definition attraction_agent_v1 :: "env_v1 \<Rightarrow> travel_state_v1 \<Rightarrow> travel_state_v1" where
  "attraction_agent_v1 w state =
     (let found = (case loads_response (attractions_response w) of
                     Inr v \<Rightarrow> v
                   | Inl e \<Rightarrow> attractions_fallback_v1 (destination (trip_request state)))
      in state\<lparr>attractions := found, current_step := ''attractions_completed''\<rparr>)"

text \<open>\<^verbatim>\<open>budget // 14\<close> on a float: the floor of the quotient, as a float.\<close>

definition hotels_fallback_v1 :: "trip_request \<Rightarrow> json" where
  "hotels_fallback_v1 req =
     JArr [JObj [(''name'', JStr ''Budget Hotel''),
                 (''price_per_night'', JFloat (of_int \<lfloor>budget req / 14\<rfloor>)),
                 (''rating'', JFloat (7 / 2)),
                 (''amenities'', JArr [JStr ''WiFi'', JStr ''Breakfast'']),
                 (''location'', JStr (destination req))]]"

definition hotel_agent_v1 :: "env_v1 \<Rightarrow> travel_state_v1 \<Rightarrow> travel_state_v1" where
  "hotel_agent_v1 w state =
     (let found = (case loads_response (hotels_response w) of
                     Inr v \<Rightarrow> v
                   | Inl e \<Rightarrow> hotels_fallback_v1 (trip_request state))
      in state\<lparr>hotels := found, current_step := ''hotels_completed''\<rparr>)"

subsection \<open>\<^verbatim>\<open>CostCalculatorAgent\<close>\<close>

text \<open>\<^verbatim>\<open>sum(h["price_per_night"] for h in ..)\<close>, element by element.\<close>

fun sum_nightly :: "json \<Rightarrow> json list \<Rightarrow> exn + json" where
  "sum_nightly acc [] = Inr acc"
| "sum_nightly acc (h # hs) =
     then_do (py_getitem h ''price_per_night'') (\<lambda>p.
     then_do (py_add acc p) (\<lambda>acc'. sum_nightly acc' hs))"

definition avg_hotel_price_v1 :: "json \<Rightarrow> exn + json" where
  "avg_hotel_price_v1 hs =
     (if py_truthy hs then
        then_do (py_slice_to 3 hs) (\<lambda>first3.
        then_do (py_iter first3) (\<lambda>items.
        then_do (sum_nightly (JInt 0) items) (\<lambda>total.
        then_do (py_len hs) (\<lambda>n. py_truediv total (JInt (min 3 (int n)))))))
      else Inr (JInt 100))"

text \<open>
  \<^verbatim>\<open>[a.get("price", 0) for a in attractions if a.get("price", 0) > 0]\<close>: comparing a
  value that is not a number with 0 raises.
\<close>

fun paid_prices :: "json list \<Rightarrow> exn + json list" where
  "paid_prices [] = Inr []"
| "paid_prices (a # as) =
     then_do (py_get a ''price'' (JInt 0)) (\<lambda>p.
       if \<not> is_num p then Inl TypeError
       else then_do (paid_prices as) (\<lambda>ps. Inr (if 0 < num_val p then p # ps else ps)))"

text \<open>
  The arithmetic of the stage, on the day count, the average hotel price (a number), the
  prices of the paid attractions and the traveller count. The last division is by
  \<open>days\<close>.
\<close>

definition expense_breakdown_v1 :: "int \<Rightarrow> json \<Rightarrow> json list \<Rightarrow> int \<Rightarrow> exn + pydict" where
  "expense_breakdown_v1 days avg_hotel_price activity_costs n =
     (let accommodation_cost =
            mk_num (is_float avg_hotel_price) (num_val avg_hotel_price * of_int days);
          food_cost = 50 * days * n;
          transportation_cost = 200 * n;
          avg_activity_cost =
            sum_list (map num_val (take 10 activity_costs))
              / of_int (max 1 (int (length (take 10 activity_costs))));
          activities_cost = avg_activity_cost * of_int days * (7 / 10);
          miscellaneous_cost =
            (num_val accommodation_cost + of_int food_cost + activities_cost) * (1 / 10);
          total_cost = num_val accommodation_cost + of_int food_cost + of_int transportation_cost
                       + activities_cost + miscellaneous_cost
      in if days = 0 then Inl ZeroDivisionError
         else Inr [(''accommodation'', accommodation_cost),
                   (''food'', JInt food_cost),
                   (''transportation'', JInt transportation_cost),
                   (''activities'', JFloat activities_cost),
                   (''miscellaneous'', JFloat miscellaneous_cost),
                   (''total'', JFloat total_cost),
                   (''daily_budget'', JFloat (total_cost / of_int days)),
                   (''days'', JInt days)])"

definition cost_calculator_agent_v1 :: "travel_state_v1 \<Rightarrow> exn + travel_state_v1" where
  "cost_calculator_agent_v1 state =
     (let req = trip_request state in
      then_do (date_diff req) (\<lambda>days.
      then_do (avg_hotel_price_v1 (hotels state)) (\<lambda>avg_hotel_price.
      then_do (py_iter (attractions state)) (\<lambda>as.
      then_do (paid_prices as) (\<lambda>activity_costs.
      then_do (expense_breakdown_v1 days avg_hotel_price activity_costs (travelers req))
        (\<lambda>breakdown.
           Inr (state\<lparr>expenses := breakdown, current_step := ''costs_completed''\<rparr>)))))))"

subsection \<open>\<^verbatim>\<open>CurrencyAgent\<close>\<close>

definition exchange_rate_of :: "exn + string \<Rightarrow> json" where
  "exchange_rate_of r =
     (case then_do (loads_response r) (\<lambda>rate_data. py_get rate_data ''rate'' (JFloat 1)) of
        Inr rate \<Rightarrow> rate
      | Inl e \<Rightarrow> JFloat 1)"

definition convert_entry :: "json \<Rightarrow> string \<times> json \<Rightarrow> exn + string \<times> json" where
  "convert_entry rate kv =
     (if is_num (snd kv) then then_do (py_mul (snd kv) rate) (\<lambda>v. Inr (fst kv, v))
      else Inr kv)"

definition currency_agent_v1 :: "env_v1 \<Rightarrow> travel_state_v1 \<Rightarrow> exn + travel_state_v1" where
  "currency_agent_v1 w state =
     (let target_currency = currency (trip_request state)
      in if py_upper target_currency = ''USD''
         then Inr (state\<lparr>currency_rates := [(''USD'', JFloat 1)]\<rparr>)
         else
           (let exchange_rate = exchange_rate_of (currency_response w)
            in then_do (traverse (convert_entry exchange_rate) (expenses state))
                 (\<lambda>converted_expenses.
                    Inr (state\<lparr>expenses := converted_expenses,
                               currency_rates := [(target_currency, exchange_rate)],
                               current_step := ''currency_completed''\<rparr>))))"

subsection \<open>\<^verbatim>\<open>ItineraryAgent\<close>\<close>

text \<open>A value printed with \<^verbatim>\<open>:.2f\<close> must be a number.\<close>

definition format_2f_check :: "json \<Rightarrow> exn + unit" where
  "format_2f_check v = (if is_num v then Inr () else if is_str v then Inl ValueError else Inl TypeError)"

definition day_plan :: "int \<Rightarrow> nat \<Rightarrow> json" where
  "day_plan start i =
     JObj [(''day'', JInt (int i + 1)),
           (''date'', JStr (strftime_ymd (start + int i))),
           (''activities'',
              JArr [JObj [(''time'', JStr ''Morning''),
                          (''activity'', JStr ''Explore local attractions''), (''cost'', JInt 30)],
                    JObj [(''time'', JStr ''Afternoon''),
                          (''activity'', JStr ''Visit museums or landmarks''), (''cost'', JInt 25)],
                    JObj [(''time'', JStr ''Evening''),
                          (''activity'', JStr ''Dinner and local entertainment''), (''cost'', JInt 45)]]),
           (''meals'',
              JArr [JObj [(''meal'', JStr ''Breakfast''),
                          (''suggestion'', JStr ''Local cafe''), (''cost'', JInt 15)],
                    JObj [(''meal'', JStr ''Lunch''),
                          (''suggestion'', JStr ''Street food''), (''cost'', JInt 20)],
                    JObj [(''meal'', JStr ''Dinner''),
                          (''suggestion'', JStr ''Traditional restaurant''), (''cost'', JInt 35)]]),
           (''estimated_cost'', JInt 170)]"

text \<open>\<^verbatim>\<open>for i in range(days)\<close>: no iteration when \<open>days\<close> is not positive.\<close>

definition basic_itinerary :: "int \<Rightarrow> int \<Rightarrow> json" where
  "basic_itinerary start days = JArr (map (day_plan start) [0 ..< nat days])"

definition itinerary_agent_v1 :: "env_v1 \<Rightarrow> travel_state_v1 \<Rightarrow> exn + travel_state_v1" where
  "itinerary_agent_v1 w state =
     (let req = trip_request state in
      then_do (strptime_ymd (start_date req)) (\<lambda>start.
      then_do (strptime_ymd (end_date req)) (\<lambda>end.
      let days = end - start in
      then_do (py_slice_to 15 (attractions state)) (\<lambda>shown.
      then_do (format_2f_check (dict_get (expenses state) ''daily_budget'' (JInt 200))) (\<lambda>u.
      let plan = (case loads_response (itinerary_response w) of
                    Inr v \<Rightarrow> v
                  | Inl e \<Rightarrow> basic_itinerary start days)
      in Inr (state\<lparr>itinerary := plan, current_step := ''itinerary_completed''\<rparr>))))))"

subsection \<open>\<^verbatim>\<open>SummaryAgent\<close>\<close>

definition summary_keys :: "string list" where
  "summary_keys =
     [''total'', ''accommodation'', ''food'', ''transportation'', ''activities'',
      ''miscellaneous'', ''daily_budget'']"

definition summary_agent_v1 :: "env_v1 \<Rightarrow> travel_state_v1 \<Rightarrow> exn + travel_state_v1" where
  "summary_agent_v1 w state =
     then_do (py_slice_to 5 (attractions state)) (\<lambda>top_attractions.
     then_do (py_slice_to 3 (hotels state)) (\<lambda>top_hotels.
     (case summary_response w of
        Inr content \<Rightarrow> Inr (state\<lparr>summary := Text content, current_step := ''completed''\<rparr>)
      | Inl e \<Rightarrow>
          then_do (traverse (\<lambda>k. format_2f_check (dict_get (expenses state) k (JInt 0))) summary_keys)
            (\<lambda>us. Inr (state\<lparr>summary := BasicSummary (trip_request state) (expenses state),
                              current_step := ''completed''\<rparr>)))))"

subsection \<open>\<^verbatim>\<open>AITravelAgent.plan_trip\<close>\<close>

definition initial_state_v1 :: "trip_request \<Rightarrow> travel_state_v1" where
  "initial_state_v1 req =
     \<lparr>trip_request = req, weather_info = WeatherDict [], attractions = JArr [],
      hotels = JArr [], expenses = [], itinerary = JArr [], summary = Text [], errors = [],
      currency_rates = [], current_step = ''start''\<rparr>"

definition workflow_v1 :: "env_v1 \<Rightarrow> travel_state_v1 \<Rightarrow> exn + travel_state_v1" where
  "workflow_v1 w state =
     then_do (cost_calculator_agent_v1
                (hotel_agent_v1 w (attraction_agent_v1 w (weather_agent_v1 w state))))
       (\<lambda>s1. then_do (currency_agent_v1 w s1)
       (\<lambda>s2. then_do (itinerary_agent_v1 w s2)
       (\<lambda>s3. summary_agent_v1 w s3)))"

text \<open>
  \<^verbatim>\<open>plan_trip\<close> catches every exception of the workflow and returns a dictionary with
  the keys \<^verbatim>\<open>error\<close> and \<^verbatim>\<open>partial_result\<close>, the latter being the initial state.
\<close>

datatype plan_result =
    Planned travel_state_v1
  | PlanFailed exn travel_state_v1

definition plan_trip_v1 :: "env_v1 \<Rightarrow> trip_request \<Rightarrow> plan_result" where
  "plan_trip_v1 w req =
     (case workflow_v1 w (initial_state_v1 req) of
        Inr result \<Rightarrow> Planned result
      | Inl e \<Rightarrow> PlanFailed e (initial_state_v1 req))"

section \<open>Notions of the specification and example data\<close>


text \<open>A text between double quotes.\<close>

definition quoted :: "string \<Rightarrow> string" where
  "quoted s = CHR 0x22 # s @ [CHR 0x22]"

text \<open>The texts \<^verbatim>\<open>{"a":1}\<close> and \<^verbatim>\<open>blah blah {"a":1} trailing\<close> of the specification.\<close>

definition object_text :: string where
  "object_text = ''{'' @ quoted ''a'' @ '':1}''"

definition commented_text :: string where
  "commented_text = ''blah blah '' @ object_text @ '' trailing''"

text \<open>The request of the end-to-end scenario of the specification.\<close>

definition lisbon_request :: trip_request where
  "lisbon_request =
     \<lparr>destination = ''Lisbon, Portugal'', start_date = ''2025-09-01'', end_date = ''2025-09-04'',
      budget = 1200, currency = ''USD'', travelers = 2, preferences = [''food'']\<rparr>"

text \<open>An environment in which every external call fails.\<close>

definition failing_env :: env where
  "failing_env =
     \<lparr>geo_lookup = Inl ProviderError, weather_fetch = (\<lambda>coords. Inl ProviderError),
      attractions_reply = Inl ProviderError, hotels_reply = Inl ProviderError,
      itinerary_reply = Inl ProviderError, summary_reply = Inl ProviderError\<rparr>"

text \<open>
  The same for the earlier variant; \<open>weather_result\<close> is the dictionary its weather
  stage assigns when it has no data.
\<close>

definition failing_env_v1 :: env_v1 where
  "failing_env_v1 =
     \<lparr>weather_result =
        WeatherDict [(''current_temp'', JStr ''N/A''), (''condition'', JStr ''Data unavailable''),
                     (''forecast'', JArr []),
                     (''recommendations'', JArr [JStr ''Check weather before departure''])],
      attractions_response = Inl ProviderError, hotels_response = Inl ProviderError,
      currency_response = Inl ProviderError, itinerary_response = Inl ProviderError,
      summary_response = Inl ProviderError\<rparr>"

text \<open>The entry a stage appends to \<open>errors\<close>: its message if it failed, nothing otherwise.\<close>

definition diagnostic :: "bool \<Rightarrow> string \<Rightarrow> string list" where
  "diagnostic failed msg = (if failed then [msg] else [])"

text \<open>The diagnostics of the later variant, in stage order.\<close>

definition all_fail_errors :: "string list" where
  "all_fail_errors =
     [''WeatherAgent: Failed to retrieve data.'',
      ''AttractionAgent: Failed to parse LLM response.'',
      ''HotelAgent: Failed to parse LLM response.'',
      ''ItineraryAgent: Failed to parse LLM response.'',
      ''SummaryAgent: Failed to generate summary.'']"

text \<open>
  The final state of the later variant when every external call fails, for a request
  whose dates are \<open>d\<close> days apart: every stage has written its default.
\<close>

definition all_fail_state :: "trip_request \<Rightarrow> int \<Rightarrow> travel_state" where
  "all_fail_state req d =
     \<lparr>trip_request = req, weather_info = weather_fallback, attractions = attractions_fallback,
      hotels = hotels_fallback,
      expenses = expense_breakdown (max 1 d) [JFloat 2000] (JFloat 28) (travelers req),
      itinerary = itinerary_fallback (initial_state req), summary = summary_fallback,
      errors = all_fail_errors\<rparr>"



text \<open>
  The final state of the earlier variant for the Lisbon request when every external call
  fails (2025-09-01 is day 739495).
\<close>

definition lisbon_expenses_v1 :: pydict where
  "lisbon_expenses_v1 =
     [(''accommodation'', JFloat 255), (''food'', JInt 300), (''transportation'', JInt 400),
      (''activities'', JFloat 0), (''miscellaneous'', JFloat (111 / 2)),
      (''total'', JFloat (2021 / 2)), (''daily_budget'', JFloat (2021 / 6)), (''days'', JInt 3)]"

definition lisbon_plan_v1 :: travel_state_v1 where
  "lisbon_plan_v1 =
     \<lparr>trip_request = lisbon_request, weather_info = weather_result failing_env_v1,
      attractions = attractions_fallback_v1 ''Lisbon, Portugal'',
      hotels = hotels_fallback_v1 lisbon_request, expenses = lisbon_expenses_v1,
      itinerary = basic_itinerary 739495 3,
      summary = BasicSummary lisbon_request lisbon_expenses_v1, errors = [],
      currency_rates = [(''USD'', JFloat 1)], current_step = ''completed''\<rparr>"

text \<open>
  An environment of the later variant in which the lookup of the coordinates fails and
  the weather service answers (with an empty forecast); every model call fails.
\<close>

definition geo_failing_env :: env where
  "geo_failing_env =
     failing_env\<lparr>weather_fetch :=
       (\<lambda>coords. Inr (JObj [(''daily'', JObj [(''time'', JArr []), (''temperature_2m_max'', JArr [])])]))\<rparr>"

text \<open>A request whose end date is its start date.\<close>

definition same_day_request :: trip_request where
  "same_day_request = lisbon_request\<lparr>end_date := ''2025-09-01''\<rparr>"

text \<open>A request with the end date before the start date, no budget and no traveller.\<close>

definition malformed_request :: trip_request where
  "malformed_request =
     \<lparr>destination = ''Lisbon, Portugal'', start_date = ''2025-09-04'', end_date = ''2025-09-01'',
      budget = 0, currency = ''USD'', travelers = 0, preferences = []\<rparr>"

text \<open>
  An environment of the later variant in which the model answers the Attractions stage
  with \<^verbatim>\<open>[{"name": "Louvre", "price": "free"}]\<close>, and the list this text decodes to.
\<close>

definition free_price_reply :: string where
  "free_price_reply =
     ''[{'' @ quoted ''name'' @ '': '' @ quoted ''Louvre'' @ '', '' @ quoted ''price'' @ '': ''
       @ quoted ''free'' @ ''}]''"

definition free_price_attractions :: json where
  "free_price_attractions = JArr [JObj [(''name'', JStr ''Louvre''), (''price'', JStr ''free'')]]"

definition free_price_env :: env where
  "free_price_env = failing_env\<lparr>attractions_reply := Inr free_price_reply\<rparr>"

text \<open>
  The stored total of an expense dictionary, and the sum of its categories
  (\<^verbatim>\<open>miscellaneous\<close> counts when present).
\<close>

definition stored_total :: "pydict \<Rightarrow> rat" where
  "stored_total e = num_val (dict_get e ''total'' (JInt 0))"

definition categories_total :: "pydict \<Rightarrow> rat" where
  "categories_total e =
     sum_list (map (\<lambda>k. num_val (dict_get e k (JInt 0)))
       [''accommodation'', ''food'', ''transportation'', ''activities'', ''miscellaneous''])"

text \<open>
  An expense dictionary with every numeric entry multiplied by a rate and the other
  entries unchanged.
\<close>

definition scaled :: "json \<Rightarrow> pydict \<Rightarrow> pydict" where
  "scaled rate e =
     map (\<lambda>kv. (fst kv,
                if is_num (snd kv)
                then mk_num (is_float (snd kv) \<or> is_float rate) (num_val (snd kv) * num_val rate)
                else snd kv)) e"

text \<open>
  An environment of the later variant in which the model reports one hotel at 100.668 a
  night and one attraction at 10.002, and the expenses of the Lisbon request in it.
\<close>

definition rounding_env :: env where
  "rounding_env =
     failing_env\<lparr>attractions_reply := Inr (''[{'' @ quoted ''price'' @ '': 10.002}]''),
                 hotels_reply := Inr (''[{'' @ quoted ''price_per_night'' @ '': 100.668}]'')\<rparr>"

definition rounding_expenses :: pydict where
  "rounding_expenses =
     [(''accommodation'', JFloat 302), (''food'', JFloat 480), (''transportation'', JFloat 180),
      (''activities'', JFloat 20), (''total'', JFloat (98201 / 100)), (''days'', JInt 3),
      (''daily_budget'', JFloat (32734 / 100))]"





text \<open>The nightly price of a hotel entry: \<^verbatim>\<open>None\<close> when there is none.\<close>

definition price_per_night :: "json \<Rightarrow> json" where
  "price_per_night h = (case h of JObj d \<Rightarrow> dict_get d ''price_per_night'' JNull | _ \<Rightarrow> JNull)"

text \<open>
  Four hotels, the fourth dearer than the first three, and the expenses the earlier
  variant computes for the Lisbon request with them and no attraction.
\<close>

definition four_hotels :: "json list" where
  "four_hotels =
     [JObj [(''name'', JStr ''A''), (''price_per_night'', JInt 100)],
      JObj [(''name'', JStr ''B''), (''price_per_night'', JInt 100)],
      JObj [(''name'', JStr ''C''), (''price_per_night'', JInt 100)],
      JObj [(''name'', JStr ''D''), (''price_per_night'', JInt 500)]]"

definition four_hotels_expenses_v1 :: pydict where
  "four_hotels_expenses_v1 =
     [(''accommodation'', JFloat 300), (''food'', JInt 300), (''transportation'', JInt 400),
      (''activities'', JFloat 0), (''miscellaneous'', JFloat 60), (''total'', JFloat 1060),
      (''daily_budget'', JFloat (1060 / 3)), (''days'', JInt 3)]"

text \<open>The Lisbon request extended to six days.\<close>

definition long_request :: trip_request where
  "long_request = lisbon_request\<lparr>end_date := ''2025-09-07''\<rparr>"

text \<open>
  The single entries of the two fallback hotel lists: the earlier variant's, at a given
  nightly price and destination, and the later variant's.
\<close>

definition budget_hotel :: "rat \<Rightarrow> string \<Rightarrow> json" where
  "budget_hotel price dest =
     JObj [(''name'', JStr ''Budget Hotel''), (''price_per_night'', JFloat price),
           (''rating'', JFloat (7 / 2)), (''amenities'', JArr [JStr ''WiFi'', JStr ''Breakfast'']),
           (''location'', JStr dest)]"

definition ritz :: json where
  "ritz = JObj [(''name'', JStr ''The Ritz Paris''), (''price_per_night'', JFloat 2000)]"



text \<open>
  The state of the later variant after its Summary stage has run once more on the final
  state of the run in which every provider fails.
\<close>

definition summarised_twice :: travel_state where
  "summarised_twice =
     (all_fail_state lisbon_request 3)
       \<lparr>errors := all_fail_errors @ [''SummaryAgent: Failed to generate summary.'']\<rparr>"

text \<open>The expenses the earlier variant computes for the Lisbon request without hotels.\<close>

definition no_hotels_expenses_v1 :: pydict where
  "no_hotels_expenses_v1 = dict_set ''accommodation'' (JInt 300) four_hotels_expenses_v1"

section \<open>Properties of \<^verbatim>\<open>_parse_llm_json\<close>\<close>












text \<open>
  C2. On the text \<^verbatim>\<open>blah blah {"a":1} trailing\<close> the extractor finds the brace at
  index 10 and decodes the slice \<^verbatim>\<open>{"a":1} trailing\<close>; the decoder rejects the text
  after the object, so the extractor raises instead of returning the object.
\<close>

theorem parse_llm_json_trailing_text:
  "json_start commented_text = 10
   \<and> parse_llm_json commented_text ExpectDict = Inl (MalformedJSON (object_text @ '' trailing''))
   \<and> parse_llm_json (''blah blah '' @ object_text) ExpectDict = Inr (JObj [(''a'', JInt 1)])"
  by code_simp

section \<open>The stages, one by one\<close>

lemma then_do_simps [simp]:
  "then_do (Inl e) f = Inl e"
  "then_do (Inr x) f = f x"
  by (simp_all add: then_do_def)

lemma then_do_Inr: "(then_do m f = Inr y) = (\<exists>x. m = Inr x \<and> f x = Inr y)"
  by (cases m) simp_all

lemma weather_agent_effect:
  "weather_agent w s =
     s\<lparr>weather_info := (case weather_try w of Inr i \<Rightarrow> i | Inl e \<Rightarrow> weather_fallback),
       errors := errors s @ diagnostic (isl (weather_try w)) ''WeatherAgent: Failed to retrieve data.''\<rparr>"
  by (cases "weather_try w") (simp_all add: weather_agent_def diagnostic_def)

lemma attraction_agent_effect:
  "attraction_agent w s =
     s\<lparr>attractions := (case parse_reply (attractions_reply w) of Inr v \<Rightarrow> v | Inl e \<Rightarrow> attractions_fallback),
       errors := errors s @ diagnostic (isl (parse_reply (attractions_reply w)))
                   ''AttractionAgent: Failed to parse LLM response.''\<rparr>"
  by (cases "parse_reply (attractions_reply w)") (simp_all add: attraction_agent_def diagnostic_def)

lemma hotel_agent_effect:
  "hotel_agent w s =
     s\<lparr>hotels := (case parse_reply (hotels_reply w) of Inr v \<Rightarrow> v | Inl e \<Rightarrow> hotels_fallback),
       errors := errors s @ diagnostic (isl (parse_reply (hotels_reply w)))
                   ''HotelAgent: Failed to parse LLM response.''\<rparr>"
  by (cases "parse_reply (hotels_reply w)") (simp_all add: hotel_agent_def diagnostic_def)

lemma itinerary_agent_effect:
  "itinerary_agent w s =
     s\<lparr>itinerary := (case itinerary_try w s of Inr v \<Rightarrow> v | Inl e \<Rightarrow> itinerary_fallback s),
       errors := errors s @ diagnostic (isl (itinerary_try w s))
                   ''ItineraryAgent: Failed to parse LLM response.''\<rparr>"
  by (cases "itinerary_try w s") (simp_all add: itinerary_agent_def diagnostic_def)

lemma summary_agent_effect:
  assumes "summary_agent w s = Inr s'"
  shows "s' = s\<lparr>summary := (case summary_reply w of Inr c \<Rightarrow> Text c | Inl e \<Rightarrow> summary_fallback),
       errors := errors s @ diagnostic (isl (summary_reply w))
                   ''SummaryAgent: Failed to generate summary.''\<rparr>"
  using assms
  by (cases "summary_reply w")
     (auto simp: summary_agent_def diagnostic_def then_do_Inr)

lemma cost_calculator_agent_effect:
  assumes "cost_calculator_agent s = Inr s'"
  shows "\<exists>d hs ps as a.
            date_diff (trip_request s) = Inr d \<and> py_iter (hotels s) = Inr hs
          \<and> hotel_prices hs = Inr ps \<and> py_iter (attractions s) = Inr as
          \<and> sum_prices (JInt 0) as = Inr a
          \<and> s' = s\<lparr>expenses := expense_breakdown (max 1 d) ps a (travelers (trip_request s))\<rparr>"
  using assms by (auto simp: cost_calculator_agent_def Let_def then_do_Inr)

lemma expense_breakdown_keys:
  "map fst (expense_breakdown d ps a n) =
     [''accommodation'', ''food'', ''transportation'', ''activities'', ''total'', ''days'',
      ''daily_budget'']"
  by (simp add: expense_breakdown_def Let_def)

lemma expense_breakdown_days: "dict_item (expense_breakdown d ps a n) ''days'' = Inr (JInt d)"
  by (simp add: expense_breakdown_def Let_def dict_item_def)

lemma itinerary_try_after_costs:
  "itinerary_try w (s\<lparr>expenses := expense_breakdown d ps a n\<rparr>) = parse_reply (itinerary_reply w)"
  by (simp add: itinerary_try_def expense_breakdown_def Let_def dict_item_def)

lemma plan_trip_completed:
  assumes "plan_trip w req = Inr s"
  shows "\<exists>d ps a.
      date_diff req = Inr d
    \<and> s = \<lparr>trip_request = req,
           weather_info = (case weather_try w of Inr i \<Rightarrow> i | Inl e \<Rightarrow> weather_fallback),
           attractions = (case parse_reply (attractions_reply w) of Inr v \<Rightarrow> v | Inl e \<Rightarrow> attractions_fallback),
           hotels = (case parse_reply (hotels_reply w) of Inr v \<Rightarrow> v | Inl e \<Rightarrow> hotels_fallback),
           expenses = expense_breakdown (max 1 d) ps a (travelers req),
           itinerary = (case parse_reply (itinerary_reply w) of Inr v \<Rightarrow> v
                        | Inl e \<Rightarrow> JArr [JObj [(''day'', JInt 1),
                 (''date'', JStr (start_date req)),
                 (''activities'', JArr [JStr ''Arrival and explore.'']),
                 (''meals'', JArr [JStr ''Dinner at a local bistro.''])]]),
           summary = (case summary_reply w of Inr c \<Rightarrow> Text c | Inl e \<Rightarrow> summary_fallback),
           errors = diagnostic (isl (weather_try w)) ''WeatherAgent: Failed to retrieve data.''
                  @ diagnostic (isl (parse_reply (attractions_reply w))) ''AttractionAgent: Failed to parse LLM response.''
                  @ diagnostic (isl (parse_reply (hotels_reply w))) ''HotelAgent: Failed to parse LLM response.''
                  @ diagnostic (isl (parse_reply (itinerary_reply w))) ''ItineraryAgent: Failed to parse LLM response.''
                  @ diagnostic (isl (summary_reply w)) ''SummaryAgent: Failed to generate summary.''\<rparr>"
proof -
  let ?s3 = "hotel_agent w (attraction_agent w (weather_agent w (initial_state req)))"
  from assms obtain s4 where c: "cost_calculator_agent ?s3 = Inr s4"
    and f: "summary_agent w (itinerary_agent w s4) = Inr s"
    by (auto simp: plan_trip_def then_do_Inr)
  have tr: "trip_request ?s3 = req"
    by (simp add: hotel_agent_effect attraction_agent_effect weather_agent_effect initial_state_def)
  from cost_calculator_agent_effect [OF c] obtain d ps a where
    d: "date_diff req = Inr d"
    and s4: "s4 = ?s3\<lparr>expenses := expense_breakdown (max 1 d) ps a (travelers req)\<rparr>"
    unfolding tr by blast
  have it: "itinerary_try w s4 = parse_reply (itinerary_reply w)"
    unfolding s4 by (rule itinerary_try_after_costs)
  have "s = (itinerary_agent w s4)\<lparr>summary := (case summary_reply w of Inr c \<Rightarrow> Text c | Inl e \<Rightarrow> summary_fallback),
       errors := errors (itinerary_agent w s4) @ diagnostic (isl (summary_reply w))
                   ''SummaryAgent: Failed to generate summary.''\<rparr>"
    by (rule summary_agent_effect [OF f])
  then have "s = \<lparr>trip_request = req,
           weather_info = (case weather_try w of Inr i \<Rightarrow> i | Inl e \<Rightarrow> weather_fallback),
           attractions = (case parse_reply (attractions_reply w) of Inr v \<Rightarrow> v | Inl e \<Rightarrow> attractions_fallback),
           hotels = (case parse_reply (hotels_reply w) of Inr v \<Rightarrow> v | Inl e \<Rightarrow> hotels_fallback),
           expenses = expense_breakdown (max 1 d) ps a (travelers req),
           itinerary = (case parse_reply (itinerary_reply w) of Inr v \<Rightarrow> v
                        | Inl e \<Rightarrow> JArr [JObj [(''day'', JInt 1),
                 (''date'', JStr (start_date req)),
                 (''activities'', JArr [JStr ''Arrival and explore.'']),
                 (''meals'', JArr [JStr ''Dinner at a local bistro.''])]]),
           summary = (case summary_reply w of Inr c \<Rightarrow> Text c | Inl e \<Rightarrow> summary_fallback),
           errors = diagnostic (isl (weather_try w)) ''WeatherAgent: Failed to retrieve data.''
                  @ diagnostic (isl (parse_reply (attractions_reply w))) ''AttractionAgent: Failed to parse LLM response.''
                  @ diagnostic (isl (parse_reply (hotels_reply w))) ''HotelAgent: Failed to parse LLM response.''
                  @ diagnostic (isl (parse_reply (itinerary_reply w))) ''ItineraryAgent: Failed to parse LLM response.''
                  @ diagnostic (isl (summary_reply w)) ''SummaryAgent: Failed to generate summary.''\<rparr>"
    unfolding itinerary_agent_effect it
    by (simp add: s4 hotel_agent_effect attraction_agent_effect weather_agent_effect
        initial_state_def itinerary_fallback_def split: sum.splits)
  with d show ?thesis by blast
qed

lemma date_diff_Inr:
  "(date_diff req = Inr d) =
     (\<exists>s e. strptime_ymd (start_date req) = Inr s \<and> strptime_ymd (end_date req) = Inr e \<and> d = e - s)"
  by (auto simp: date_diff_def then_do_Inr)

lemma cost_calculator_agent_v1_effect:
  assumes "cost_calculator_agent_v1 s = Inr s'"
  shows "\<exists>d avg as acs ex.
            date_diff (trip_request s) = Inr d \<and> avg_hotel_price_v1 (hotels s) = Inr avg
          \<and> py_iter (attractions s) = Inr as \<and> paid_prices as = Inr acs
          \<and> expense_breakdown_v1 d avg acs (travelers (trip_request s)) = Inr ex
          \<and> s' = s\<lparr>expenses := ex, current_step := ''costs_completed''\<rparr>"
  using assms by (auto simp: cost_calculator_agent_v1_def Let_def then_do_Inr)

lemma expense_breakdown_v1_Inr:
  "expense_breakdown_v1 d avg acs n = Inr ex \<Longrightarrow> d \<noteq> 0"
  by (auto simp: expense_breakdown_v1_def Let_def split: if_splits)

lemma currency_agent_v1_effect:
  assumes "currency_agent_v1 w s = Inr s'"
  shows "(py_upper (currency (trip_request s)) = ''USD'' \<and> s' = s\<lparr>currency_rates := [(''USD'', JFloat 1)]\<rparr>)
       \<or> (py_upper (currency (trip_request s)) \<noteq> ''USD'' \<and>
          (\<exists>conv. traverse (convert_entry (exchange_rate_of (currency_response w))) (expenses s) = Inr conv
             \<and> s' = s\<lparr>expenses := conv,
                      currency_rates := [(currency (trip_request s), exchange_rate_of (currency_response w))],
                      current_step := ''currency_completed''\<rparr>))"
  using assms by (auto simp: currency_agent_v1_def Let_def then_do_Inr split: if_splits)

lemma itinerary_agent_v1_effect:
  assumes "itinerary_agent_v1 w s = Inr s'"
  shows "\<exists>start d. strptime_ymd (start_date (trip_request s)) = Inr start
          \<and> date_diff (trip_request s) = Inr d
          \<and> s' = s\<lparr>itinerary := (case loads_response (itinerary_response w) of
                                   Inr v \<Rightarrow> v | Inl e \<Rightarrow> basic_itinerary start d),
                   current_step := ''itinerary_completed''\<rparr>"
  using assms by (auto simp: itinerary_agent_v1_def Let_def then_do_Inr date_diff_Inr)

lemma summary_agent_v1_effect:
  assumes "summary_agent_v1 w s = Inr s'"
  shows "s' = s\<lparr>summary := (case summary_response w of Inr c \<Rightarrow> Text c
                             | Inl e \<Rightarrow> BasicSummary (trip_request s) (expenses s)),
                current_step := ''completed''\<rparr>"
  using assms
  by (cases "summary_response w") (auto simp: summary_agent_v1_def then_do_Inr)

lemma workflow_v1_completed:
  assumes "workflow_v1 w (initial_state_v1 req) = Inr s"
  shows "\<exists>d start.
      date_diff req = Inr d \<and> d \<noteq> 0 \<and> strptime_ymd (start_date req) = Inr start
    \<and> trip_request s = req
    \<and> errors s = []
    \<and> weather_info s = weather_result w
    \<and> attractions s = (case loads_response (attractions_response w) of
                         Inr v \<Rightarrow> v | Inl e \<Rightarrow> attractions_fallback_v1 (destination req))
    \<and> hotels s = (case loads_response (hotels_response w) of
                    Inr v \<Rightarrow> v | Inl e \<Rightarrow> hotels_fallback_v1 req)
    \<and> itinerary s = (case loads_response (itinerary_response w) of
                       Inr v \<Rightarrow> v | Inl e \<Rightarrow> basic_itinerary start d)
    \<and> current_step s = ''completed''"
proof -
  let ?s3 = "hotel_agent_v1 w (attraction_agent_v1 w (weather_agent_v1 w (initial_state_v1 req)))"
  from assms obtain s4 s5 s6 where
    c: "cost_calculator_agent_v1 ?s3 = Inr s4"
    and u: "currency_agent_v1 w s4 = Inr s5"
    and i: "itinerary_agent_v1 w s5 = Inr s6"
    and f: "summary_agent_v1 w s6 = Inr s"
    by (auto simp: workflow_v1_def then_do_Inr)
  have s3: "?s3 = (initial_state_v1 req)\<lparr>weather_info := weather_result w,
      attractions := (case loads_response (attractions_response w) of
                         Inr v \<Rightarrow> v | Inl e \<Rightarrow> attractions_fallback_v1 (destination req)),
      hotels := (case loads_response (hotels_response w) of
                    Inr v \<Rightarrow> v | Inl e \<Rightarrow> hotels_fallback_v1 req),
      current_step := ''hotels_completed''\<rparr>"
    by (simp add: hotel_agent_v1_def attraction_agent_v1_def weather_agent_v1_def
        initial_state_v1_def Let_def split: sum.splits)
  have tr3: "trip_request ?s3 = req" unfolding s3 by (simp add: initial_state_v1_def)
  from cost_calculator_agent_v1_effect [OF c] obtain d avg acs ex where
    d: "date_diff req = Inr d" and ex: "expense_breakdown_v1 d avg acs (travelers req) = Inr ex"
    and s4: "s4 = ?s3\<lparr>expenses := ex, current_step := ''costs_completed''\<rparr>"
    unfolding tr3 by blast
  have nz: "d \<noteq> 0" using ex by (rule expense_breakdown_v1_Inr)
  from currency_agent_v1_effect [OF u] obtain ex' cr st where
    s5: "s5 = s4\<lparr>expenses := ex', currency_rates := cr, current_step := st\<rparr>"
    by (cases s4) auto
  have tr5: "trip_request s5 = req" unfolding s5 s4 s3 by (simp add: initial_state_v1_def)
  from itinerary_agent_v1_effect [OF i] obtain start d' where
    st: "strptime_ymd (start_date req) = Inr start" and d': "date_diff req = Inr d'"
    and s6: "s6 = s5\<lparr>itinerary := (case loads_response (itinerary_response w) of
                                   Inr v \<Rightarrow> v | Inl e \<Rightarrow> basic_itinerary start d'),
                   current_step := ''itinerary_completed''\<rparr>"
    unfolding tr5 by blast
  have dd: "d' = d" using d d' by simp
  have s: "s = s6\<lparr>summary := (case summary_response w of Inr c \<Rightarrow> Text c
                             | Inl e \<Rightarrow> BasicSummary (trip_request s6) (expenses s6)),
                current_step := ''completed''\<rparr>"
    by (rule summary_agent_v1_effect [OF f])
  have "trip_request s = req \<and> errors s = [] \<and> weather_info s = weather_result w
    \<and> attractions s = (case loads_response (attractions_response w) of
                         Inr v \<Rightarrow> v | Inl e \<Rightarrow> attractions_fallback_v1 (destination req))
    \<and> hotels s = (case loads_response (hotels_response w) of
                    Inr v \<Rightarrow> v | Inl e \<Rightarrow> hotels_fallback_v1 req)
    \<and> itinerary s = (case loads_response (itinerary_response w) of
                       Inr v \<Rightarrow> v | Inl e \<Rightarrow> basic_itinerary start d)
    \<and> current_step s = ''completed''"
    unfolding s s6 s5 s4 s3 dd by (simp add: initial_state_v1_def)
  with d nz st show ?thesis by blast
qed

section \<open>Runs with every provider failing\<close>

lemma plan_trip_all_fail:
  assumes "date_diff req = Inr d"
  shows "plan_trip failing_env req = Inr (all_fail_state req d)"
proof -
  define s3 where "s3 = (initial_state req)\<lparr>weather_info := weather_fallback,
      attractions := attractions_fallback, hotels := hotels_fallback,
      errors := take 3 all_fail_errors\<rparr>"
  define s4 where
    "s4 = s3\<lparr>expenses := expense_breakdown (max 1 d) [JFloat 2000] (JFloat 28) (travelers req)\<rparr>"
  define s5 where "s5 = s4\<lparr>itinerary := itinerary_fallback s4,
      errors := errors s4 @ [''ItineraryAgent: Failed to parse LLM response.'']\<rparr>"
  have a: "hotel_agent failing_env (attraction_agent failing_env
             (weather_agent failing_env (initial_state req))) = s3"
    by (simp add: hotel_agent_def attraction_agent_def weather_agent_def failing_env_def
        initial_state_def all_fail_errors_def weather_try_def parse_reply_def s3_def)
  have c: "cost_calculator_agent s3 = Inr s4"
    using assms
    by (simp add: s3_def s4_def cost_calculator_agent_def initial_state_def hotels_fallback_def
        attractions_fallback_def dict_get_def py_add_def mk_num_def)
  have "itinerary_try failing_env s4 = Inl ProviderError"
    unfolding s4_def by (simp add: itinerary_try_after_costs failing_env_def parse_reply_def)
  then have i: "itinerary_agent failing_env s4 = s5"
    by (simp add: itinerary_agent_def s5_def)
  have "summary_agent failing_env s5 =
      Inr (s5\<lparr>summary := summary_fallback,
              errors := errors s5 @ [''SummaryAgent: Failed to generate summary.'']\<rparr>)"
    by (simp add: summary_agent_def failing_env_def s5_def itinerary_fallback_def day_check_def
        join_check_def dict_get_def)
  then have f: "summary_agent failing_env s5 = Inr (all_fail_state req d)"
    by (simp add: s5_def s4_def s3_def all_fail_state_def initial_state_def all_fail_errors_def
        itinerary_fallback_def)
  show ?thesis
    by (simp add: plan_trip_def a c i f)
qed

lemma plan_trip_v1_lisbon: "plan_trip_v1 failing_env_v1 lisbon_request = Planned lisbon_plan_v1"
  by code_simp


lemma date_diff_lisbon: "date_diff lisbon_request = Inr 3"
  by code_simp

section \<open>C1: the day count and the length of the itinerary\<close>




section \<open>C3: diagnostics and defaults\<close>

lemma plan_trip_v1_same_day:
  "plan_trip_v1 failing_env_v1 same_day_request
     = PlanFailed ZeroDivisionError (initial_state_v1 same_day_request)"
  by code_simp

text \<open>
  C3, as the code has it. In the later variant each of the stages Weather (the forecast
  request and its processing), Attractions, Hotels, ItineraryBuilder and Summary appends
  exactly one diagnostic to \<open>errors\<close> when its \<^verbatim>\<open>try\<close> block fails and nothing
  otherwise, and on failure writes its default to the field it owns; CostCalculator
  leaves \<open>errors\<close> alone. So \<open>errors\<close> only grows, and after a completed run it lists
  the failed stages in stage order: at most five entries. The earlier variant writes its
  defaults without a diagnostic: after a completed run \<open>errors\<close> is empty; when a stage
  raises, its \<^verbatim>\<open>plan_trip\<close> returns an error record holding the initial state.
\<close>

theorem diagnostics_per_failed_stage:
  "errors (weather_agent w t)
     = errors t @ diagnostic (isl (weather_try w)) ''WeatherAgent: Failed to retrieve data.''
   \<and> (isl (weather_try w) \<longrightarrow> weather_info (weather_agent w t) = weather_fallback)
   \<and> errors (attraction_agent w t)
     = errors t @ diagnostic (isl (parse_reply (attractions_reply w)))
                    ''AttractionAgent: Failed to parse LLM response.''
   \<and> (isl (parse_reply (attractions_reply w)) \<longrightarrow>
        attractions (attraction_agent w t) = attractions_fallback)
   \<and> errors (hotel_agent w t)
     = errors t @ diagnostic (isl (parse_reply (hotels_reply w)))
                    ''HotelAgent: Failed to parse LLM response.''
   \<and> (isl (parse_reply (hotels_reply w)) \<longrightarrow> hotels (hotel_agent w t) = hotels_fallback)
   \<and> errors (itinerary_agent w t)
     = errors t @ diagnostic (isl (itinerary_try w t))
                    ''ItineraryAgent: Failed to parse LLM response.''
   \<and> (isl (itinerary_try w t) \<longrightarrow> itinerary (itinerary_agent w t) = itinerary_fallback t)
   \<and> (summary_agent w t = Inr t' \<longrightarrow>
        errors t' = errors t @ diagnostic (isl (summary_reply w))
                                 ''SummaryAgent: Failed to generate summary.''
        \<and> (isl (summary_reply w) \<longrightarrow> summary t' = summary_fallback))
   \<and> (cost_calculator_agent t = Inr t'' \<longrightarrow> errors t'' = errors t)
   \<and> (plan_trip w req = Inr s \<longrightarrow>
        errors s
          = diagnostic (isl (weather_try w)) ''WeatherAgent: Failed to retrieve data.''
          @ diagnostic (isl (parse_reply (attractions_reply w)))
              ''AttractionAgent: Failed to parse LLM response.''
          @ diagnostic (isl (parse_reply (hotels_reply w)))
              ''HotelAgent: Failed to parse LLM response.''
          @ diagnostic (isl (parse_reply (itinerary_reply w)))
              ''ItineraryAgent: Failed to parse LLM response.''
          @ diagnostic (isl (summary_reply w)) ''SummaryAgent: Failed to generate summary.''
        \<and> length (errors s) \<le> 5)
   \<and> (plan_trip_v1 w1 req1 = Planned s1 \<longrightarrow>
        errors s1 = []
        \<and> (isl (loads_response (attractions_response w1)) \<longrightarrow>
             attractions s1 = attractions_fallback_v1 (destination req1))
        \<and> (isl (loads_response (hotels_response w1)) \<longrightarrow>
             hotels s1 = hotels_fallback_v1 req1))
   \<and> (plan_trip_v1 w1 req1 = PlanFailed e s0 \<longrightarrow> s0 = initial_state_v1 req1)"
proof -
  have w: "isl (weather_try w) \<longrightarrow> weather_info (weather_agent w t) = weather_fallback"
    by (cases "weather_try w") (simp_all add: weather_agent_effect)
  have a: "isl (parse_reply (attractions_reply w)) \<longrightarrow>
        attractions (attraction_agent w t) = attractions_fallback"
    by (cases "parse_reply (attractions_reply w)") (simp_all add: attraction_agent_effect)
  have h: "isl (parse_reply (hotels_reply w)) \<longrightarrow> hotels (hotel_agent w t) = hotels_fallback"
    by (cases "parse_reply (hotels_reply w)") (simp_all add: hotel_agent_effect)
  have i: "isl (itinerary_try w t) \<longrightarrow> itinerary (itinerary_agent w t) = itinerary_fallback t"
    by (cases "itinerary_try w t") (simp_all add: itinerary_agent_effect)
  have sm: "summary_agent w t = Inr t' \<longrightarrow>
        errors t' = errors t @ diagnostic (isl (summary_reply w))
                                 ''SummaryAgent: Failed to generate summary.''
        \<and> (isl (summary_reply w) \<longrightarrow> summary t' = summary_fallback)"
  proof
    assume "summary_agent w t = Inr t'"
    from summary_agent_effect [OF this] show "errors t' = errors t @ diagnostic (isl (summary_reply w))
                                 ''SummaryAgent: Failed to generate summary.''
        \<and> (isl (summary_reply w) \<longrightarrow> summary t' = summary_fallback)"
      by (cases "summary_reply w") simp_all
  qed
  have c: "cost_calculator_agent t = Inr t'' \<longrightarrow> errors t'' = errors t"
    using cost_calculator_agent_effect [of t t''] by auto
  have p: "plan_trip w req = Inr s \<longrightarrow>
        errors s
          = diagnostic (isl (weather_try w)) ''WeatherAgent: Failed to retrieve data.''
          @ diagnostic (isl (parse_reply (attractions_reply w)))
              ''AttractionAgent: Failed to parse LLM response.''
          @ diagnostic (isl (parse_reply (hotels_reply w)))
              ''HotelAgent: Failed to parse LLM response.''
          @ diagnostic (isl (parse_reply (itinerary_reply w)))
              ''ItineraryAgent: Failed to parse LLM response.''
          @ diagnostic (isl (summary_reply w)) ''SummaryAgent: Failed to generate summary.''
        \<and> length (errors s) \<le> 5"
  proof
    assume "plan_trip w req = Inr s"
    from plan_trip_completed [OF this] have e: "errors s
          = diagnostic (isl (weather_try w)) ''WeatherAgent: Failed to retrieve data.''
          @ diagnostic (isl (parse_reply (attractions_reply w)))
              ''AttractionAgent: Failed to parse LLM response.''
          @ diagnostic (isl (parse_reply (hotels_reply w)))
              ''HotelAgent: Failed to parse LLM response.''
          @ diagnostic (isl (parse_reply (itinerary_reply w)))
              ''ItineraryAgent: Failed to parse LLM response.''
          @ diagnostic (isl (summary_reply w)) ''SummaryAgent: Failed to generate summary.''"
      by force
    have "length (errors s) \<le> 5"
      unfolding e by (simp add: diagnostic_def)
    with e show "errors s
          = diagnostic (isl (weather_try w)) ''WeatherAgent: Failed to retrieve data.''
          @ diagnostic (isl (parse_reply (attractions_reply w)))
              ''AttractionAgent: Failed to parse LLM response.''
          @ diagnostic (isl (parse_reply (hotels_reply w)))
              ''HotelAgent: Failed to parse LLM response.''
          @ diagnostic (isl (parse_reply (itinerary_reply w)))
              ''ItineraryAgent: Failed to parse LLM response.''
          @ diagnostic (isl (summary_reply w)) ''SummaryAgent: Failed to generate summary.''
        \<and> length (errors s) \<le> 5" by simp
  qed
  have v1: "plan_trip_v1 w1 req1 = Planned s1 \<longrightarrow>
        errors s1 = []
        \<and> (isl (loads_response (attractions_response w1)) \<longrightarrow>
             attractions s1 = attractions_fallback_v1 (destination req1))
        \<and> (isl (loads_response (hotels_response w1)) \<longrightarrow>
             hotels s1 = hotels_fallback_v1 req1)"
  proof
    assume "plan_trip_v1 w1 req1 = Planned s1"
    then have "workflow_v1 w1 (initial_state_v1 req1) = Inr s1"
      by (auto simp: plan_trip_v1_def split: sum.splits)
    from workflow_v1_completed [OF this]
    show "errors s1 = []
        \<and> (isl (loads_response (attractions_response w1)) \<longrightarrow>
             attractions s1 = attractions_fallback_v1 (destination req1))
        \<and> (isl (loads_response (hotels_response w1)) \<longrightarrow>
             hotels s1 = hotels_fallback_v1 req1)"
      by (cases "loads_response (attractions_response w1)"; cases "loads_response (hotels_response w1)")
         auto
  qed
  have f: "plan_trip_v1 w1 req1 = PlanFailed e s0 \<longrightarrow> s0 = initial_state_v1 req1"
    by (auto simp: plan_trip_v1_def split: sum.splits)
  have ew: "errors (weather_agent w t)
     = errors t @ diagnostic (isl (weather_try w)) ''WeatherAgent: Failed to retrieve data.''"
    by (simp add: weather_agent_effect)
  have ea: "errors (attraction_agent w t)
     = errors t @ diagnostic (isl (parse_reply (attractions_reply w)))
                    ''AttractionAgent: Failed to parse LLM response.''"
    by (simp add: attraction_agent_effect)
  have eh: "errors (hotel_agent w t)
     = errors t @ diagnostic (isl (parse_reply (hotels_reply w)))
                    ''HotelAgent: Failed to parse LLM response.''"
    by (simp add: hotel_agent_effect)
  have ei: "errors (itinerary_agent w t)
     = errors t @ diagnostic (isl (itinerary_try w t))
                    ''ItineraryAgent: Failed to parse LLM response.''"
    by (simp add: itinerary_agent_effect)
  show ?thesis
    using ew w ea a eh h ei i sm c p v1 f by blast
qed

theorem diagnostics_per_failed_stage_witness:
  "isl (weather_try failing_env) \<and> isl (parse_reply (attractions_reply failing_env))
   \<and> isl (parse_reply (hotels_reply failing_env)) \<and> isl (summary_reply failing_env)
   \<and> isl (itinerary_try failing_env (all_fail_state lisbon_request 3))
   \<and> plan_trip failing_env lisbon_request = Inr (all_fail_state lisbon_request 3)
   \<and> errors (all_fail_state lisbon_request 3) = all_fail_errors
   \<and> weather_info (weather_agent failing_env (all_fail_state lisbon_request 3)) = weather_fallback
   \<and> attractions (attraction_agent failing_env (all_fail_state lisbon_request 3))
       = attractions_fallback
   \<and> hotels (hotel_agent failing_env (all_fail_state lisbon_request 3)) = hotels_fallback
   \<and> itinerary (itinerary_agent failing_env (all_fail_state lisbon_request 3))
       = itinerary_fallback (all_fail_state lisbon_request 3)
   \<and> summary_agent failing_env (all_fail_state lisbon_request 3) = Inr summarised_twice
   \<and> errors summarised_twice = all_fail_errors @ [''SummaryAgent: Failed to generate summary.'']
   \<and> summary summarised_twice = summary_fallback
   \<and> cost_calculator_agent (all_fail_state lisbon_request 3) = Inr (all_fail_state lisbon_request 3)
   \<and> plan_trip_v1 failing_env_v1 lisbon_request = Planned lisbon_plan_v1
   \<and> isl (loads_response (attractions_response failing_env_v1))
   \<and> isl (loads_response (hotels_response failing_env_v1))
   \<and> errors lisbon_plan_v1 = []
   \<and> attractions lisbon_plan_v1 = attractions_fallback_v1 ''Lisbon, Portugal''
   \<and> hotels lisbon_plan_v1 = hotels_fallback_v1 lisbon_request
   \<and> plan_trip_v1 failing_env_v1 same_day_request
       = PlanFailed ZeroDivisionError (initial_state_v1 same_day_request)"
proof -
  have f: "isl (weather_try failing_env)" "isl (parse_reply (attractions_reply failing_env))"
    "isl (parse_reply (hotels_reply failing_env))" "isl (summary_reply failing_env)"
    "isl (itinerary_try failing_env (all_fail_state lisbon_request 3))"
    "isl (loads_response (attractions_response failing_env_v1))"
    "isl (loads_response (hotels_response failing_env_v1))"
    by (simp_all add: failing_env_def failing_env_v1_def weather_try_def parse_reply_def
        loads_response_def itinerary_try_def all_fail_state_def expense_breakdown_def
        dict_item_def Let_def)
  have p: "plan_trip failing_env lisbon_request = Inr (all_fail_state lisbon_request 3)"
    by (rule plan_trip_all_fail [OF date_diff_lisbon])
  have e: "errors (all_fail_state lisbon_request 3) = all_fail_errors"
    by (simp add: all_fail_state_def)
  have d: "destination lisbon_request = ''Lisbon, Portugal''"
    by (simp add: lisbon_request_def)
  have sm: "summary_agent failing_env (all_fail_state lisbon_request 3) = Inr summarised_twice"
    by code_simp
  have c: "cost_calculator_agent (all_fail_state lisbon_request 3)
      = Inr (all_fail_state lisbon_request 3)"
    by code_simp
  have s2: "summary summarised_twice = summary_fallback"
    by (simp add: summarised_twice_def all_fail_state_def)
  show ?thesis
    using diagnostics_per_failed_stage [of failing_env "all_fail_state lisbon_request 3"
        summarised_twice "all_fail_state lisbon_request 3"
        lisbon_request "all_fail_state lisbon_request 3"
        failing_env_v1 lisbon_request lisbon_plan_v1 ZeroDivisionError
        "initial_state_v1 lisbon_request"]
      diagnostics_per_failed_stage [of failing_env "all_fail_state lisbon_request 3"
        summarised_twice "all_fail_state lisbon_request 3"
        lisbon_request "all_fail_state lisbon_request 3"
        failing_env_v1 same_day_request lisbon_plan_v1 ZeroDivisionError
        "initial_state_v1 same_day_request"]
      f p e d sm c s2 plan_trip_v1_lisbon plan_trip_v1_same_day
    by (simp add: lisbon_plan_v1_def diagnostic_def)
qed

text \<open>
  C3 as stated fails: failures that a stage absorbs leave no diagnostic. In the earlier
  variant the Attractions stage falls back for the Lisbon request and \<open>errors\<close> stays
  empty, as it does for the whole run in which every stage fell back; in the later
  variant a failed lookup of the coordinates is replaced by fixed coordinates and
  nothing is appended.
\<close>

theorem absorbed_failures_leave_no_diagnostic:
  "isl (loads_response (attractions_response failing_env_v1))
   \<and> attractions (attraction_agent_v1 failing_env_v1 (initial_state_v1 lisbon_request))
       = attractions_fallback_v1 ''Lisbon, Portugal''
   \<and> errors (attraction_agent_v1 failing_env_v1 (initial_state_v1 lisbon_request)) = []
   \<and> plan_trip_v1 failing_env_v1 lisbon_request = Planned lisbon_plan_v1
   \<and> errors lisbon_plan_v1 = []
   \<and> isl (geo_lookup geo_failing_env)
   \<and> errors (weather_agent geo_failing_env (initial_state lisbon_request)) = []"
  by code_simp

section \<open>C5: no validation of the request\<close>

lemma plan_trip_free_price: "plan_trip free_price_env lisbon_request = Inl TypeError"
  by code_simp

text \<open>
  C5, as the code has it. \<^verbatim>\<open>plan_trip\<close> builds the initial state and runs the stages,
  whatever the request. For every request whose dates parse, with the end date after the
  start date or not and with any budget and traveller count, the run in which every
  provider fails completes, with the day count clamped to at least 1 and the Weather
  stage having written its default. When a run of the later variant raises, the
  exception comes from CostCalculator or from Summary, after the first three stages have
  run.
\<close>

theorem no_request_validation:
  "(date_diff req = Inr d \<longrightarrow>
      plan_trip failing_env req = Inr (all_fail_state req d)
      \<and> dict_item (expenses (all_fail_state req d)) ''days'' = Inr (JInt (max 1 d))
      \<and> weather_info (all_fail_state req d) = weather_fallback)
   \<and> (plan_trip w req = Inl e \<longrightarrow>
        cost_calculator_agent
          (hotel_agent w (attraction_agent w (weather_agent w (initial_state req)))) = Inl e
        \<or> (\<exists>s4. cost_calculator_agent
                   (hotel_agent w (attraction_agent w (weather_agent w (initial_state req))))
                 = Inr s4
               \<and> summary_agent w (itinerary_agent w s4) = Inl e))"
proof (intro conjI impI)
  assume d: "date_diff req = Inr d"
  show "plan_trip failing_env req = Inr (all_fail_state req d)"
    by (rule plan_trip_all_fail [OF d])
  show "dict_item (expenses (all_fail_state req d)) ''days'' = Inr (JInt (max 1 d))"
    by (simp add: all_fail_state_def expense_breakdown_days)
  show "weather_info (all_fail_state req d) = weather_fallback"
    by (simp add: all_fail_state_def)
next
  assume "plan_trip w req = Inl e"
  then show "cost_calculator_agent
          (hotel_agent w (attraction_agent w (weather_agent w (initial_state req)))) = Inl e
        \<or> (\<exists>s4. cost_calculator_agent
                   (hotel_agent w (attraction_agent w (weather_agent w (initial_state req))))
                 = Inr s4
               \<and> summary_agent w (itinerary_agent w s4) = Inl e)"
    by (cases "cost_calculator_agent
          (hotel_agent w (attraction_agent w (weather_agent w (initial_state req))))")
       (simp_all add: plan_trip_def)
qed

theorem no_request_validation_witness:
  "date_diff malformed_request = Inr (- 3)
   \<and> plan_trip failing_env malformed_request = Inr (all_fail_state malformed_request (- 3))
   \<and> dict_item (expenses (all_fail_state malformed_request (- 3))) ''days'' = Inr (JInt 1)
   \<and> plan_trip free_price_env lisbon_request = Inl TypeError
   \<and> cost_calculator_agent
        (hotel_agent free_price_env (attraction_agent free_price_env
           (weather_agent free_price_env (initial_state lisbon_request)))) = Inl TypeError"
proof -
  have d: "date_diff malformed_request = Inr (- 3)" by code_simp
  have n: "\<not> (\<exists>s4. cost_calculator_agent
        (hotel_agent free_price_env (attraction_agent free_price_env
           (weather_agent free_price_env (initial_state lisbon_request)))) = Inr s4
       \<and> summary_agent free_price_env (itinerary_agent free_price_env s4) = Inl TypeError)"
  proof -
    have "cost_calculator_agent
        (hotel_agent free_price_env (attraction_agent free_price_env
           (weather_agent free_price_env (initial_state lisbon_request)))) = Inl TypeError"
      by code_simp
    then show ?thesis by simp
  qed
  show ?thesis
    using no_request_validation [of malformed_request "- 3" failing_env]
      no_request_validation [of lisbon_request 3 free_price_env TypeError]
      d n plan_trip_free_price
    by simp
qed

text \<open>
  C5 as stated fails: a request that ends three days before it starts, with budget 0 and
  0 travellers, is planned like any other; the run completes with \<^verbatim>\<open>days\<close> equal to
  1 and the five diagnostics of the stages that fell back.
\<close>

theorem malformed_request_is_planned:
  "date_diff malformed_request = Inr (- 3)
   \<and> budget malformed_request \<le> 0 \<and> travelers malformed_request \<le> 0
   \<and> plan_trip failing_env malformed_request = Inr (all_fail_state malformed_request (- 3))
   \<and> weather_info (all_fail_state malformed_request (- 3)) = weather_fallback
   \<and> dict_item (expenses (all_fail_state malformed_request (- 3))) ''days'' = Inr (JInt 1)
   \<and> errors (all_fail_state malformed_request (- 3)) = all_fail_errors"
  by code_simp

section \<open>C9: CostCalculator run twice, and its failures\<close>

text \<open>When the stage returns, running it again on the result changes nothing.\<close>

lemma cost_calculator_agent_idempotent:
  assumes "cost_calculator_agent s = Inr s'"
  shows "cost_calculator_agent s' = Inr s'"
proof -
  from cost_calculator_agent_effect [OF assms] obtain d hs ps as a where
    f: "date_diff (trip_request s) = Inr d" "py_iter (hotels s) = Inr hs"
       "hotel_prices hs = Inr ps" "py_iter (attractions s) = Inr as"
       "sum_prices (JInt 0) as = Inr a"
    and s': "s' = s\<lparr>expenses := expense_breakdown (max 1 d) ps a (travelers (trip_request s))\<rparr>"
    by blast
  show ?thesis
    unfolding s' using f by (simp add: cost_calculator_agent_def)
qed

lemma cost_calculator_agent_v1_idempotent:
  assumes "cost_calculator_agent_v1 s = Inr s'"
  shows "cost_calculator_agent_v1 s' = Inr s'"
proof -
  from cost_calculator_agent_v1_effect [OF assms] obtain d avg as acs ex where
    f: "date_diff (trip_request s) = Inr d" "avg_hotel_price_v1 (hotels s) = Inr avg"
       "py_iter (attractions s) = Inr as" "paid_prices as = Inr acs"
       "expense_breakdown_v1 d avg acs (travelers (trip_request s)) = Inr ex"
    and s': "s' = s\<lparr>expenses := ex, current_step := ''costs_completed''\<rparr>"
    by blast
  show ?thesis
    unfolding s' using f by (simp add: cost_calculator_agent_v1_def)
qed

text \<open>
  C9. CostCalculator can fail. In the later variant the model's reply
  \<^verbatim>\<open>[{"name": "Louvre", "price": "free"}]\<close> passes \<^verbatim>\<open>_parse_llm_json\<close>, and the sum
  of the prices then adds a string to a number: the stage raises \<^verbatim>\<open>TypeError\<close>, and so
  does \<^verbatim>\<open>plan_trip\<close>. In the earlier variant a hotel without \<^verbatim>\<open>price_per_night\<close>
  raises \<^verbatim>\<open>KeyError\<close>.
\<close>

theorem cost_calculator_raises_on_text_price:
  "parse_reply (attractions_reply free_price_env) = Inr free_price_attractions
   \<and> cost_calculator_agent ((initial_state lisbon_request)\<lparr>attractions := free_price_attractions\<rparr>)
       = Inl TypeError
   \<and> plan_trip free_price_env lisbon_request = Inl TypeError
   \<and> cost_calculator_agent_v1
       ((initial_state_v1 lisbon_request)\<lparr>hotels := JArr [JObj [(''name'', JStr ''Budget Inn'')]]\<rparr>)
       = Inl (KeyError ''price_per_night'')"
  by code_simp

section \<open>Rounding and currency conversion\<close>

lemma round_half_even_error: "\<bar>of_int (round_half_even x) - x\<bar> \<le> 1 / 2"
proof -
  have "of_int \<lfloor>x\<rfloor> \<le> x" "x < of_int \<lfloor>x\<rfloor> + 1" by linarith+
  then show ?thesis
    by (auto simp: round_half_even_def Let_def)
qed

lemma round2_error: "\<bar>round2 x - x\<bar> \<le> 1 / 200"
proof -
  have "\<bar>of_int (round_half_even (x * 100)) - x * 100\<bar> \<le> 1 / 2"
    by (rule round_half_even_error)
  then show ?thesis by (simp add: round2_def field_simps abs_if split: if_splits)
qed

lemma round2_cents: "round2 x * 100 = of_int (round_half_even (x * 100))"
  by (simp add: round2_def)

lemma round_half_even_of_int: "round_half_even (of_int n) = n"
  by (simp add: round_half_even_def)

lemma round2_of_int: "round2 (of_int n) = of_int n"
proof -
  have "(of_int n :: rat) * 100 = of_int (n * 100)" by simp
  then have "round_half_even (of_int n * 100) = n * 100"
    using round_half_even_of_int [of "n * 100"] by simp
  then show ?thesis by (simp add: round2_def)
qed

lemma py_round2_error: "\<bar>num_val (py_round2 v) - num_val v\<bar> \<le> 1 / 200"
  using round2_error by (cases v) simp_all

lemma py_round2_cents: "\<exists>k. num_val (py_round2 v) * 100 = of_int k"
proof -
  have i: "\<And>i. \<exists>k. rat_of_int i * 100 = of_int k"
  proof -
    fix i :: int
    have "rat_of_int i * 100 = of_int (i * 100)" by simp
    then show "\<exists>k. rat_of_int i * 100 = of_int k" by (rule exI)
  qed
  show ?thesis
  proof (cases v)
    case (JFloat r)
    then show ?thesis by (auto simp: round2_cents)
  qed (use i in auto)
qed

lemma cents_bound:
  fixes k :: int
  assumes "\<bar>(of_int k :: rat) / 100\<bar> \<le> 3 / 200"
  shows "\<bar>(of_int k :: rat) / 100\<bar> \<le> 1 / 100"
proof -
  from assms have "\<bar>(of_int k :: rat)\<bar> \<le> 3 / 2" by simp
  then have "\<bar>(of_int k :: rat)\<bar> < of_int 2" by simp
  then have "\<bar>k\<bar> < 2" by (metis of_int_abs of_int_less_iff)
  then have "\<bar>k\<bar> \<le> 1" by simp
  then have "\<bar>(of_int k :: rat)\<bar> \<le> 1" by (metis of_int_abs of_int_le_iff of_int_1)
  then show ?thesis by simp
qed

lemma expense_breakdown_total:
  "\<bar>stored_total (expense_breakdown d ps a n) - categories_total (expense_breakdown d ps a n)\<bar>
     \<le> 1 / 100"
proof -
  define A where "A = (if ps \<noteq> [] then sum_list (map num_val ps) / of_nat (length ps) else 200)
                        * rat_of_int d"
  define F where "F = 80 * d * n"
  define P where "P = 30 * d * n"
  define C where "C = mk_num (is_float a) (num_val a * of_int n)"
  define T where "T = A + of_int F + of_int P + num_val C"
  have st: "stored_total (expense_breakdown d ps a n) = round2 T"
    by (simp add: stored_total_def expense_breakdown_def Let_def dict_get_def T_def A_def F_def
        P_def C_def)
  have ct: "categories_total (expense_breakdown d ps a n)
      = round2 A + of_int F + of_int P + num_val (py_round2 C)"
    using round2_of_int [of F] round2_of_int [of P]
    by (simp add: categories_total_def expense_breakdown_def Let_def dict_get_def A_def F_def
        P_def C_def)
  obtain kc where kc: "num_val (py_round2 C) * 100 = of_int kc"
    using py_round2_cents by blast
  define k where "k = round_half_even (T * 100) - (round_half_even (A * 100) + F * 100 + P * 100 + kc)"
  have diff: "round2 T - (round2 A + of_int F + of_int P + num_val (py_round2 C)) = of_int k / 100"
  proof -
    have "(round2 T - (round2 A + of_int F + of_int P + num_val (py_round2 C))) * 100
        = round2 T * 100 - (round2 A * 100 + of_int F * 100 + of_int P * 100
             + num_val (py_round2 C) * 100)"
      by (simp add: algebra_simps)
    also have "\<dots> = of_int k"
      by (simp add: round2_cents kc k_def)
    finally show ?thesis by simp
  qed
  have e1: "\<bar>round2 T - T\<bar> \<le> 1 / 200" by (rule round2_error)
  have e2: "\<bar>round2 A - A\<bar> \<le> 1 / 200" by (rule round2_error)
  have e3: "\<bar>num_val (py_round2 C) - num_val C\<bar> \<le> 1 / 200" by (rule py_round2_error)
  have "\<bar>round2 T - (round2 A + of_int F + of_int P + num_val (py_round2 C))\<bar> \<le> 3 / 200"
    using e1 e2 e3 unfolding T_def by linarith
  then have "\<bar>(of_int k :: rat) / 100\<bar> \<le> 1 / 100"
    unfolding diff by (rule cents_bound)
  then show ?thesis by (simp add: st ct diff)
qed

lemma num_val_int: "\<not> is_float v \<Longrightarrow> num_val v = of_int (int_val v)"
  by (cases v) simp_all

lemma num_val_product:
  "num_val (mk_num (is_float v \<or> is_float r) (num_val v * num_val r)) = num_val v * num_val r"
proof (cases "is_float v \<or> is_float r")
  case True
  then show ?thesis by (simp add: mk_num_def)
next
  case False
  then have "num_val v * num_val r = of_int (int_val v * int_val r)"
    by (simp add: num_val_int)
  then show ?thesis using False by (simp add: mk_num_def del: of_int_mult)
qed

lemma convert_entry_number:
  "is_num rate \<Longrightarrow>
   convert_entry rate kv =
     Inr (fst kv, if is_num (snd kv)
                  then mk_num (is_float (snd kv) \<or> is_float rate) (num_val (snd kv) * num_val rate)
                  else snd kv)"
  by (cases kv) (simp add: convert_entry_def py_mul_def)

lemma traverse_convert_number:
  "is_num rate \<Longrightarrow> traverse (convert_entry rate) e = Inr (scaled rate e)"
  by (induction e) (simp_all add: scaled_def convert_entry_number)

lemma traverse_convert_float:
  assumes "traverse (convert_entry rate) e = Inr c" "(k, JFloat x) \<in> set e"
  shows "is_num rate"
  using assms
proof (induction e arbitrary: c)
  case Nil
  then show ?case by simp
next
  case (Cons kv e)
  from Cons.prems(1) obtain y ys where
    y: "convert_entry rate kv = Inr y" and ys: "traverse (convert_entry rate) e = Inr ys"
    by (auto simp: then_do_Inr)
  show ?case
  proof (cases "kv = (k, JFloat x)")
    case True
    with y show ?thesis
      by (auto simp: convert_entry_def py_mul_def then_do_Inr split: if_splits)
  next
    case False
    with Cons.prems(2) have "(k, JFloat x) \<in> set e" by simp
    with Cons.IH ys show ?thesis by blast
  qed
qed

lemma dict_get_scaled:
  "num_val (dict_get (scaled rate e) k (JInt 0)) = num_val (dict_get e k (JInt 0)) * num_val rate"
proof (induction e)
  case Nil
  then show ?case by (simp add: scaled_def dict_get_def)
next
  case (Cons kv e)
  show ?case
  proof (cases "fst kv = k")
    case True
    have nn: "\<not> is_num (snd kv) \<Longrightarrow> num_val (snd kv) = 0"
      by (cases "snd kv") simp_all
    show ?thesis
      using True nn num_val_product [of "snd kv" rate]
      by (cases kv) (auto simp: scaled_def dict_get_def)
  next
    case False
    then show ?thesis
      using Cons.IH by (cases kv) (auto simp: scaled_def dict_get_def)
  qed
qed

lemma stored_total_scaled: "stored_total (scaled rate e) = stored_total e * num_val rate"
  by (simp add: stored_total_def dict_get_scaled)

lemma categories_total_scaled:
  "categories_total (scaled rate e) = categories_total e * num_val rate"
  by (simp add: categories_total_def dict_get_scaled algebra_simps)

lemma expense_breakdown_v1_total:
  assumes "expense_breakdown_v1 d avg acs n = Inr ex"
  shows "stored_total ex = categories_total ex"
  using assms
  by (auto simp: expense_breakdown_v1_def Let_def stored_total_def categories_total_def
      dict_get_def split: if_splits)

lemma expense_breakdown_v1_has_float:
  assumes "expense_breakdown_v1 d avg acs n = Inr ex"
  shows "\<exists>x. (''activities'', JFloat x) \<in> set ex"
  using assms by (auto simp: expense_breakdown_v1_def Let_def split: if_splits)

lemma workflow_v1_expenses:
  assumes "workflow_v1 w (initial_state_v1 req) = Inr s"
  shows "\<exists>d avg acs ex.
      date_diff req = Inr d
    \<and> avg_hotel_price_v1 (hotels s) = Inr avg
    \<and> expense_breakdown_v1 d avg acs (travelers req) = Inr ex
    \<and> (if py_upper (currency req) = ''USD'' then expenses s = ex
        else is_num (exchange_rate_of (currency_response w))
           \<and> expenses s = scaled (exchange_rate_of (currency_response w)) ex)"
proof -
  let ?s3 = "hotel_agent_v1 w (attraction_agent_v1 w (weather_agent_v1 w (initial_state_v1 req)))"
  from assms obtain s4 s5 s6 where
    c: "cost_calculator_agent_v1 ?s3 = Inr s4"
    and u: "currency_agent_v1 w s4 = Inr s5"
    and i: "itinerary_agent_v1 w s5 = Inr s6"
    and f: "summary_agent_v1 w s6 = Inr s"
    by (auto simp: workflow_v1_def then_do_Inr)
  have tr3: "trip_request ?s3 = req"
    by (simp add: hotel_agent_v1_def attraction_agent_v1_def weather_agent_v1_def
        initial_state_v1_def Let_def)
  from cost_calculator_agent_v1_effect [OF c] obtain d avg as acs ex where
    d: "date_diff req = Inr d" and avg: "avg_hotel_price_v1 (hotels ?s3) = Inr avg"
    and ex: "expense_breakdown_v1 d avg acs (travelers req) = Inr ex"
    and s4: "s4 = ?s3\<lparr>expenses := ex, current_step := ''costs_completed''\<rparr>"
    unfolding tr3 by blast
  have tr4: "trip_request s4 = req" "expenses s4 = ex" "hotels s4 = hotels ?s3"
    unfolding s4 using tr3 by simp_all
  have e5: "(if py_upper (currency req) = ''USD'' then expenses s5 = ex
        else is_num (exchange_rate_of (currency_response w))
           \<and> expenses s5 = scaled (exchange_rate_of (currency_response w)) ex)"
    and h5: "hotels s5 = hotels ?s3"
  proof -
    from currency_agent_v1_effect [OF u] tr4
    consider (usd) "py_upper (currency req) = ''USD''" "s5 = s4\<lparr>currency_rates := [(''USD'', JFloat 1)]\<rparr>"
      | (other) conv where "py_upper (currency req) \<noteq> ''USD''"
          "traverse (convert_entry (exchange_rate_of (currency_response w))) ex = Inr conv"
          "s5 = s4\<lparr>expenses := conv,
                      currency_rates := [(currency req, exchange_rate_of (currency_response w))],
                      current_step := ''currency_completed''\<rparr>"
      by auto
    then show "(if py_upper (currency req) = ''USD'' then expenses s5 = ex
        else is_num (exchange_rate_of (currency_response w))
           \<and> expenses s5 = scaled (exchange_rate_of (currency_response w)) ex)"
    proof cases
      case usd
      then show ?thesis using tr4 by simp
    next
      case other
      from expense_breakdown_v1_has_float [OF ex] obtain x where
        "(''activities'', JFloat x) \<in> set ex" by blast
      from traverse_convert_float [OF other(2) this]
      have n: "is_num (exchange_rate_of (currency_response w))" .
      with other(2) have "conv = scaled (exchange_rate_of (currency_response w)) ex"
        by (simp add: traverse_convert_number)
      with other n show ?thesis by simp
    qed
    from currency_agent_v1_effect [OF u] show "hotels s5 = hotels ?s3"
      using tr4 by auto
  qed
  from itinerary_agent_v1_effect [OF i] have e6: "expenses s6 = expenses s5" "hotels s6 = hotels s5"
    by auto
  from summary_agent_v1_effect [OF f] have e7: "expenses s = expenses s6" "hotels s = hotels s6"
    by auto
  show ?thesis
    using d avg ex e5 h5 e6 e7 by auto
qed

section \<open>C4: the total and its categories\<close>

text \<open>
  C4, as the code has it. The earlier variant stores the total as the sum of its five
  categories, and the conversion to another currency multiplies the total and the
  categories by the same rate: after a completed run the total is the sum of the
  categories (in exact arithmetic). The later variant rounds each category and the total
  to two decimals on their own: the stored total is within 0.01 of the sum of the stored
  categories, after the stage and after a completed run.
\<close>

theorem total_against_categories:
  "(plan_trip w req = Inr s \<longrightarrow>
      \<bar>stored_total (expenses s) - categories_total (expenses s)\<bar> \<le> 1 / 100)
   \<and> (cost_calculator_agent t = Inr t' \<longrightarrow>
      \<bar>stored_total (expenses t') - categories_total (expenses t')\<bar> \<le> 1 / 100)
   \<and> (cost_calculator_agent_v1 u = Inr u' \<longrightarrow>
      stored_total (expenses u') = categories_total (expenses u'))
   \<and> (plan_trip_v1 w1 req1 = Planned s1 \<longrightarrow>
      stored_total (expenses s1) = categories_total (expenses s1))"
proof (intro conjI impI)
  assume "plan_trip w req = Inr s"
  from plan_trip_completed [OF this] obtain d ps a where
    "expenses s = expense_breakdown (max 1 d) ps a (travelers req)" by force
  then show "\<bar>stored_total (expenses s) - categories_total (expenses s)\<bar> \<le> 1 / 100"
    using expense_breakdown_total [of "max 1 d" ps a "travelers req"] by simp
next
  assume "cost_calculator_agent t = Inr t'"
  from cost_calculator_agent_effect [OF this] obtain d ps a where
    "expenses t' = expense_breakdown (max 1 d) ps a (travelers (trip_request t))" by force
  then show "\<bar>stored_total (expenses t') - categories_total (expenses t')\<bar> \<le> 1 / 100"
    using expense_breakdown_total [of "max 1 d" ps a "travelers (trip_request t)"] by simp
next
  assume "cost_calculator_agent_v1 u = Inr u'"
  from cost_calculator_agent_v1_effect [OF this] obtain d avg acs ex where
    "expense_breakdown_v1 d avg acs (travelers (trip_request u)) = Inr ex" "expenses u' = ex"
    by force
  then show "stored_total (expenses u') = categories_total (expenses u')"
    by (simp add: expense_breakdown_v1_total)
next
  assume "plan_trip_v1 w1 req1 = Planned s1"
  then have "workflow_v1 w1 (initial_state_v1 req1) = Inr s1"
    by (auto simp: plan_trip_v1_def split: sum.splits)
  from workflow_v1_expenses [OF this] obtain d avg acs ex where
    ex: "expense_breakdown_v1 d avg acs (travelers req1) = Inr ex"
    and e: "if py_upper (currency req1) = ''USD'' then expenses s1 = ex
        else is_num (exchange_rate_of (currency_response w1))
           \<and> expenses s1 = scaled (exchange_rate_of (currency_response w1)) ex"
    by blast
  show "stored_total (expenses s1) = categories_total (expenses s1)"
    using e expense_breakdown_v1_total [OF ex]
    by (auto simp: stored_total_scaled categories_total_scaled split: if_splits)
qed

theorem total_against_categories_witness:
  "plan_trip failing_env lisbon_request = Inr (all_fail_state lisbon_request 3)
   \<and> \<bar>stored_total (expenses (all_fail_state lisbon_request 3))
        - categories_total (expenses (all_fail_state lisbon_request 3))\<bar> \<le> 1 / 100
   \<and> cost_calculator_agent (all_fail_state lisbon_request 3) = Inr (all_fail_state lisbon_request 3)
   \<and> cost_calculator_agent_v1 lisbon_plan_v1
        = Inr (lisbon_plan_v1\<lparr>current_step := ''costs_completed''\<rparr>)
   \<and> plan_trip_v1 failing_env_v1 lisbon_request = Planned lisbon_plan_v1
   \<and> stored_total (expenses lisbon_plan_v1) = categories_total (expenses lisbon_plan_v1)"
proof -
  have p: "plan_trip failing_env lisbon_request = Inr (all_fail_state lisbon_request 3)"
    by (rule plan_trip_all_fail [OF date_diff_lisbon])
  have c: "cost_calculator_agent (all_fail_state lisbon_request 3)
      = Inr (all_fail_state lisbon_request 3)"
    by code_simp
  have c1: "cost_calculator_agent_v1 lisbon_plan_v1
        = Inr (lisbon_plan_v1\<lparr>current_step := ''costs_completed''\<rparr>)"
    by code_simp
  show ?thesis
    using total_against_categories [of failing_env lisbon_request "all_fail_state lisbon_request 3"
        "all_fail_state lisbon_request 3" "all_fail_state lisbon_request 3"
        lisbon_plan_v1 "lisbon_plan_v1\<lparr>current_step := ''costs_completed''\<rparr>"
        failing_env_v1 lisbon_request lisbon_plan_v1]
      p c c1 plan_trip_v1_lisbon
    by blast
qed

text \<open>
  C4 as stated fails in the later variant: with one hotel at 100.668 a night and one
  attraction at 10.002 the Lisbon request gets accommodation 302.00, food 480.00,
  transportation 180.00, activities 20.00 and total 982.01, a cent more than the sum
  982.00 of the categories.
\<close>

theorem rounded_total_off_by_a_cent:
  "map_sum id expenses (plan_trip rounding_env lisbon_request) = Inr rounding_expenses
   \<and> stored_total rounding_expenses = 98201 / 100
   \<and> categories_total rounding_expenses = 982
   \<and> stored_total rounding_expenses - categories_total rounding_expenses = 1 / 100"
  by code_simp

section \<open>C10: the currency conversion of the earlier variant\<close>





lemma dict_get_scaled_default:
  "map_of e k \<noteq> None \<Longrightarrow>
   num_val (dict_get (scaled rate e) k dflt) = num_val (dict_get e k dflt) * num_val rate"
proof (induction e)
  case Nil
  then show ?case by simp
next
  case (Cons kv e)
  have nn: "\<not> is_num (snd kv) \<Longrightarrow> num_val (snd kv) = 0"
    by (cases "snd kv") simp_all
  show ?case
  proof (cases "fst kv = k")
    case True
    then show ?thesis
      using nn num_val_product [of "snd kv" rate]
      by (cases kv) (auto simp: scaled_def dict_get_def)
  next
    case False
    with Cons.prems have "map_of e k \<noteq> None" by (cases kv) auto
    from Cons.IH [OF this] False show ?thesis
      by (cases kv) (auto simp: scaled_def dict_get_def)
  qed
qed



section \<open>C7: the accommodation cost\<close>

lemma num_val_sum:
  "num_val (mk_num (is_float v \<or> is_float r) (num_val v + num_val r)) = num_val v + num_val r"
proof (cases "is_float v \<or> is_float r")
  case True
  then show ?thesis by (simp add: mk_num_def)
next
  case False
  then have "num_val v + num_val r = of_int (int_val v + int_val r)"
    by (simp add: num_val_int)
  then show ?thesis using False by (simp add: mk_num_def del: of_int_add)
qed

lemma py_add_Inr:
  assumes "py_add a b = Inr c"
  shows "is_num a \<and> is_num b \<and> is_num c \<and> num_val c = num_val a + num_val b"
proof -
  from assms have n: "is_num a" "is_num b"
    and c: "c = mk_num (is_float a \<or> is_float b) (num_val a + num_val b)"
    by (auto simp: py_add_def split: if_splits)
  have "is_num c" unfolding c by (simp add: mk_num_def)
  with n c show ?thesis by (simp add: num_val_sum)
qed

lemma py_getitem_price:
  "py_getitem h ''price_per_night'' = Inr p \<Longrightarrow> price_per_night h = p"
  by (cases h) (auto simp: price_per_night_def dict_item_def dict_get_def split: option.splits)

lemma sum_nightly_Inr:
  assumes "sum_nightly acc hs = Inr tot"
  shows "list_all is_num (map price_per_night hs)
       \<and> num_val tot = num_val acc + sum_list (map (\<lambda>h. num_val (price_per_night h)) hs)"
  using assms
proof (induction hs arbitrary: acc)
  case Nil
  then show ?case by simp
next
  case (Cons h hs)
  from Cons.prems obtain p acc' where
    p: "py_getitem h ''price_per_night'' = Inr p" and a: "py_add acc p = Inr acc'"
    and r: "sum_nightly acc' hs = Inr tot"
    by (auto simp: then_do_Inr)
  from py_getitem_price [OF p] py_add_Inr [OF a] Cons.IH [OF r]
  show ?case by simp
qed

lemma accommodation_v1:
  assumes "avg_hotel_price_v1 (JArr hs) = Inr avg"
    and "expense_breakdown_v1 d avg acs n = Inr ex"
  shows "(hs = [] \<longrightarrow> dict_get ex ''accommodation'' JNull = JInt (100 * d))
       \<and> (hs \<noteq> [] \<longrightarrow>
            list_all is_num (map price_per_night (take 3 hs))
            \<and> dict_get ex ''accommodation'' JNull
                = JFloat (sum_list (map (\<lambda>h. num_val (price_per_night h)) (take 3 hs))
                            / of_nat (min 3 (length hs)) * of_int d))"
proof (cases "hs = []")
  case True
  with assms(1) have "avg = JInt 100" by (simp add: avg_hotel_price_v1_def)
  moreover have "\<lfloor>rat_of_int (100 * d)\<rfloor> = 100 * d" by (rule floor_of_int)
  then have "\<lfloor>100 * rat_of_int d\<rfloor> = 100 * d" by simp
  ultimately show ?thesis
    using assms(2) True
    by (auto simp: expense_breakdown_v1_def Let_def dict_get_def mk_num_def split: if_splits)
next
  case False
  with assms(1) obtain tot where
    t: "sum_nightly (JInt 0) (take 3 hs) = Inr tot"
    and a: "py_truediv tot (JInt (min 3 (int (length hs)))) = Inr avg"
    by (auto simp: avg_hotel_price_v1_def then_do_Inr)
  from sum_nightly_Inr [OF t] have n: "list_all is_num (map price_per_night (take 3 hs))"
    and v: "num_val tot = sum_list (map (\<lambda>h. num_val (price_per_night h)) (take 3 hs))"
    by simp_all
  have m: "rat_of_int (min 3 (int (length hs))) = of_nat (min 3 (length hs))"
    by (simp add: min_def)
  from a have "avg = JFloat (num_val tot / of_int (min 3 (int (length hs))))"
    by (auto simp: py_truediv_def split: if_splits)
  then have avg: "avg = JFloat (sum_list (map (\<lambda>h. num_val (price_per_night h)) (take 3 hs))
                            / of_nat (min 3 (length hs)))"
    unfolding v m .
  from assms(2) have "dict_get ex ''accommodation'' JNull
      = JFloat (sum_list (map (\<lambda>h. num_val (price_per_night h)) (take 3 hs))
                            / of_nat (min 3 (length hs)) * of_int d)"
    unfolding avg
    by (auto simp: expense_breakdown_v1_def Let_def dict_get_def mk_num_def split: if_splits)
  with False n show ?thesis by simp
qed

lemma hotel_prices_Inr:
  "hotel_prices hs = Inr ps \<Longrightarrow> ps = filter is_num (map price_per_night hs)"
proof (induction hs arbitrary: ps)
  case Nil
  then show ?case by simp
next
  case (Cons h hs)
  from Cons.prems obtain p qs where
    p: "py_get h ''price_per_night'' JNull = Inr p" and q: "hotel_prices hs = Inr qs"
    and ps: "ps = (if is_num p then p # qs else qs)"
    by (auto simp: then_do_Inr)
  from p have "price_per_night h = p"
    by (cases h) (auto simp: price_per_night_def)
  with Cons.IH [OF q] ps show ?case by simp
qed

lemma accommodation_v2:
  "dict_get (expense_breakdown d ps a n) ''accommodation'' JNull
     = JFloat (round2 ((if ps = [] then 200 else sum_list (map num_val ps) / of_nat (length ps))
                        * of_int d))"
  by (simp add: expense_breakdown_def Let_def dict_get_def)

text \<open>
  C7, as the code has it. In the earlier variant the accommodation cost is 100 times the
  day count when the hotel list is empty, and otherwise the sum of the nightly prices of
  the first three hotels (which are all numbers), divided by the number of these hotels
  and multiplied by the day count. In the later variant it is the average over all
  hotels whose nightly price is a number, or 200 when there is none, multiplied by the
  day count (at least 1) and rounded to two decimals.
\<close>

theorem accommodation_cost:
  "(cost_calculator_agent_v1 s = Inr s' \<and> hotels s = JArr hs
      \<and> date_diff (trip_request s) = Inr d \<longrightarrow>
      (hs = [] \<longrightarrow> dict_get (expenses s') ''accommodation'' JNull = JInt (100 * d))
      \<and> (hs \<noteq> [] \<longrightarrow>
           list_all is_num (map price_per_night (take 3 hs))
           \<and> dict_get (expenses s') ''accommodation'' JNull
               = JFloat (sum_list (map (\<lambda>h. num_val (price_per_night h)) (take 3 hs))
                           / of_nat (min 3 (length hs)) * of_int d)))
   \<and> (cost_calculator_agent t = Inr t' \<and> hotels t = JArr hs'
      \<and> date_diff (trip_request t) = Inr d' \<longrightarrow>
      dict_get (expenses t') ''accommodation'' JNull
        = JFloat (round2
            ((if filter is_num (map price_per_night hs') = [] then 200
              else sum_list (map num_val (filter is_num (map price_per_night hs')))
                     / of_nat (length (filter is_num (map price_per_night hs'))))
             * of_int (max 1 d'))))"
proof -
  have v1: "cost_calculator_agent_v1 s = Inr s' \<and> hotels s = JArr hs
      \<and> date_diff (trip_request s) = Inr d \<longrightarrow>
      (hs = [] \<longrightarrow> dict_get (expenses s') ''accommodation'' JNull = JInt (100 * d))
      \<and> (hs \<noteq> [] \<longrightarrow>
           list_all is_num (map price_per_night (take 3 hs))
           \<and> dict_get (expenses s') ''accommodation'' JNull
               = JFloat (sum_list (map (\<lambda>h. num_val (price_per_night h)) (take 3 hs))
                           / of_nat (min 3 (length hs)) * of_int d))"
  proof
    assume a: "cost_calculator_agent_v1 s = Inr s' \<and> hotels s = JArr hs
      \<and> date_diff (trip_request s) = Inr d"
    then have c: "cost_calculator_agent_v1 s = Inr s'" by simp
    from cost_calculator_agent_v1_effect [OF c] a obtain avg acs ex where
      "avg_hotel_price_v1 (JArr hs) = Inr avg"
      "expense_breakdown_v1 d avg acs (travelers (trip_request s)) = Inr ex"
      "expenses s' = ex"
      by auto
    with accommodation_v1 [of hs avg d acs "travelers (trip_request s)" ex]
    show "(hs = [] \<longrightarrow> dict_get (expenses s') ''accommodation'' JNull = JInt (100 * d))
      \<and> (hs \<noteq> [] \<longrightarrow>
           list_all is_num (map price_per_night (take 3 hs))
           \<and> dict_get (expenses s') ''accommodation'' JNull
               = JFloat (sum_list (map (\<lambda>h. num_val (price_per_night h)) (take 3 hs))
                           / of_nat (min 3 (length hs)) * of_int d))"
      by simp
  qed
  have v2: "cost_calculator_agent t = Inr t' \<and> hotels t = JArr hs'
      \<and> date_diff (trip_request t) = Inr d' \<longrightarrow>
      dict_get (expenses t') ''accommodation'' JNull
        = JFloat (round2
            ((if filter is_num (map price_per_night hs') = [] then 200
              else sum_list (map num_val (filter is_num (map price_per_night hs')))
                     / of_nat (length (filter is_num (map price_per_night hs'))))
             * of_int (max 1 d')))"
  proof
    assume a: "cost_calculator_agent t = Inr t' \<and> hotels t = JArr hs'
      \<and> date_diff (trip_request t) = Inr d'"
    then have c: "cost_calculator_agent t = Inr t'" by simp
    from cost_calculator_agent_effect [OF c] a obtain ps a where
      ps: "hotel_prices hs' = Inr ps"
      and e: "expenses t' = expense_breakdown (max 1 d') ps a (travelers (trip_request t))"
      by auto
    show "dict_get (expenses t') ''accommodation'' JNull
        = JFloat (round2
            ((if filter is_num (map price_per_night hs') = [] then 200
              else sum_list (map num_val (filter is_num (map price_per_night hs')))
                     / of_nat (length (filter is_num (map price_per_night hs'))))
             * of_int (max 1 d')))"
      unfolding e accommodation_v2 hotel_prices_Inr [OF ps] ..
  qed
  show ?thesis using v1 v2 by blast
qed

theorem accommodation_cost_witness:
  "cost_calculator_agent_v1 ((initial_state_v1 lisbon_request)\<lparr>hotels := JArr four_hotels\<rparr>)
     = Inr ((initial_state_v1 lisbon_request)
              \<lparr>hotels := JArr four_hotels, expenses := four_hotels_expenses_v1,
               current_step := ''costs_completed''\<rparr>)
   \<and> four_hotels \<noteq> []
   \<and> date_diff lisbon_request = Inr 3
   \<and> dict_get four_hotels_expenses_v1 ''accommodation'' JNull = JFloat ((100 + 100 + 100) / 3 * 3)
   \<and> cost_calculator_agent_v1 (initial_state_v1 lisbon_request)
     = Inr ((initial_state_v1 lisbon_request)
              \<lparr>expenses := no_hotels_expenses_v1, current_step := ''costs_completed''\<rparr>)
   \<and> hotels (initial_state_v1 lisbon_request) = JArr []
   \<and> dict_get no_hotels_expenses_v1 ''accommodation'' JNull = JInt (100 * 3)
   \<and> cost_calculator_agent ((initial_state lisbon_request)\<lparr>hotels := JArr four_hotels\<rparr>)
     = Inr ((initial_state lisbon_request)
              \<lparr>hotels := JArr four_hotels,
               expenses := expense_breakdown 3 (map price_per_night four_hotels) (JInt 0) 2\<rparr>)
   \<and> dict_get (expense_breakdown 3 (map price_per_night four_hotels) (JInt 0) 2)
        ''accommodation'' JNull = JFloat 600"
proof -
  have c1: "cost_calculator_agent_v1 ((initial_state_v1 lisbon_request)\<lparr>hotels := JArr four_hotels\<rparr>)
     = Inr ((initial_state_v1 lisbon_request)
              \<lparr>hotels := JArr four_hotels, expenses := four_hotels_expenses_v1,
               current_step := ''costs_completed''\<rparr>)"
    by code_simp
  have c0: "cost_calculator_agent_v1 (initial_state_v1 lisbon_request)
     = Inr ((initial_state_v1 lisbon_request)
              \<lparr>expenses := no_hotels_expenses_v1, current_step := ''costs_completed''\<rparr>)"
    by code_simp
  have c2: "cost_calculator_agent ((initial_state lisbon_request)\<lparr>hotels := JArr four_hotels\<rparr>)
     = Inr ((initial_state lisbon_request)
              \<lparr>hotels := JArr four_hotels,
               expenses := expense_breakdown 3 (map price_per_night four_hotels) (JInt 0) 2\<rparr>)"
    by code_simp
  have n: "four_hotels \<noteq> []" by (simp add: four_hotels_def)
  have t: "trip_request ((initial_state_v1 lisbon_request)\<lparr>hotels := JArr four_hotels\<rparr>) = lisbon_request"
    "trip_request ((initial_state lisbon_request)\<lparr>hotels := JArr four_hotels\<rparr>) = lisbon_request"
    "trip_request (initial_state_v1 lisbon_request) = lisbon_request"
    "hotels (initial_state_v1 lisbon_request) = JArr []"
    by (simp_all add: initial_state_v1_def initial_state_def)
  have v: "sum_list (map (\<lambda>h. num_val (price_per_night h)) (take 3 four_hotels))
             / of_nat (min 3 (length four_hotels)) * rat_of_int 3 = (100 + 100 + 100) / 3 * 3"
    by code_simp
  have w: "dict_get (expense_breakdown 3 (map price_per_night four_hotels) (JInt 0) 2)
        ''accommodation'' JNull = JFloat 600"
    by code_simp
  show ?thesis
    using accommodation_cost [of "(initial_state_v1 lisbon_request)\<lparr>hotels := JArr four_hotels\<rparr>"
        "(initial_state_v1 lisbon_request)
              \<lparr>hotels := JArr four_hotels, expenses := four_hotels_expenses_v1,
               current_step := ''costs_completed''\<rparr>" four_hotels 3
        "(initial_state lisbon_request)\<lparr>hotels := JArr four_hotels\<rparr>"
        "(initial_state lisbon_request)
              \<lparr>hotels := JArr four_hotels,
               expenses := expense_breakdown 3 (map price_per_night four_hotels) (JInt 0) 2\<rparr>"
        four_hotels 3]
      accommodation_cost [of "initial_state_v1 lisbon_request"
        "(initial_state_v1 lisbon_request)
              \<lparr>expenses := no_hotels_expenses_v1, current_step := ''costs_completed''\<rparr>" "[]" 3
        "(initial_state lisbon_request)\<lparr>hotels := JArr four_hotels\<rparr>"
        "(initial_state lisbon_request)
              \<lparr>hotels := JArr four_hotels,
               expenses := expense_breakdown 3 (map price_per_night four_hotels) (JInt 0) 2\<rparr>"
        four_hotels 3]
      c1 c0 c2 n t v w date_diff_lisbon
    by simp
qed

text \<open>
  C7 as stated fails in the later variant: for the Lisbon request (3 days) an empty
  hotel list costs 200 a night, not 100, and of four hotels at 100, 100, 100 and 500 all
  four are averaged (200 a night), not the first three (100 a night).
\<close>

theorem later_variant_averages_every_hotel:
  "hotels (initial_state lisbon_request) = JArr []
   \<and> cost_calculator_agent (initial_state lisbon_request)
       = Inr ((initial_state lisbon_request)\<lparr>expenses := expense_breakdown 3 [] (JInt 0) 2\<rparr>)
   \<and> dict_get (expense_breakdown 3 [] (JInt 0) 2) ''accommodation'' JNull = JFloat (200 * 3)
   \<and> map price_per_night four_hotels = [JInt 100, JInt 100, JInt 100, JInt 500]
   \<and> cost_calculator_agent ((initial_state lisbon_request)\<lparr>hotels := JArr four_hotels\<rparr>)
       = Inr ((initial_state lisbon_request)
                \<lparr>hotels := JArr four_hotels,
                 expenses := expense_breakdown 3 [JInt 100, JInt 100, JInt 100, JInt 500]
                               (JInt 0) 2\<rparr>)
   \<and> dict_get (expense_breakdown 3 [JInt 100, JInt 100, JInt 100, JInt 500] (JInt 0) 2)
        ''accommodation'' JNull
      = JFloat ((100 + 100 + 100 + 500) / 4 * 3)
   \<and> date_diff lisbon_request = Inr 3"
  by code_simp

section \<open>C8: the fallback of the Hotels stage\<close>

lemma hotels_fallback_v1_single:
  "hotels_fallback_v1 req = JArr [budget_hotel (of_int \<lfloor>budget req / 14\<rfloor>) (destination req)]"
  by (simp add: hotels_fallback_v1_def budget_hotel_def)

lemma price_budget_hotel: "price_per_night (budget_hotel p dest) = JFloat p"
  by (simp add: price_per_night_def budget_hotel_def dict_get_def)

lemma avg_budget_hotel: "avg_hotel_price_v1 (JArr [budget_hotel p dest]) = Inr (JFloat p)"
  by (simp add: avg_hotel_price_v1_def budget_hotel_def dict_item_def py_add_def mk_num_def
      py_truediv_def)

lemma accommodation_all_fail_v1:
  assumes "plan_trip_v1 failing_env_v1 req = Planned p" "date_diff req = Inr d"
  shows "hotels p = hotels_fallback_v1 req
       \<and> num_val (dict_get (expenses p) ''accommodation'' JNull)
           = of_int \<lfloor>budget req / 14\<rfloor> * of_int d"
proof -
  from assms(1) have w: "workflow_v1 failing_env_v1 (initial_state_v1 req) = Inr p"
    by (auto simp: plan_trip_v1_def split: sum.splits)
  have l: "loads_response (hotels_response failing_env_v1) = Inl ProviderError"
    by (simp add: loads_response_def failing_env_v1_def)
  from workflow_v1_completed [OF w] have h: "hotels p = hotels_fallback_v1 req"
    by (auto simp: l)
  have r: "exchange_rate_of (currency_response failing_env_v1) = JFloat 1"
    by (simp add: exchange_rate_of_def loads_response_def failing_env_v1_def)
  from workflow_v1_expenses [OF w] assms(2) obtain avg acs ex where
    avg: "avg_hotel_price_v1 (hotels p) = Inr avg"
    and ex: "expense_breakdown_v1 d avg acs (travelers req) = Inr ex"
    and e: "if py_upper (currency req) = ''USD'' then expenses p = ex
            else expenses p = scaled (JFloat 1) ex"
    by (auto simp: r)
  from avg have a: "avg = JFloat (of_int \<lfloor>budget req / 14\<rfloor>)"
    unfolding h hotels_fallback_v1_single avg_budget_hotel by simp
  from ex have acc: "dict_get ex ''accommodation'' JNull
      = JFloat (of_int \<lfloor>budget req / 14\<rfloor> * of_int d)"
    unfolding a
    by (auto simp: expense_breakdown_v1_def Let_def dict_get_def mk_num_def split: if_splits)
  then have m: "map_of ex ''accommodation'' \<noteq> None"
    by (auto simp: dict_get_def split: option.splits)
  have "num_val (dict_get (expenses p) ''accommodation'' JNull)
           = of_int \<lfloor>budget req / 14\<rfloor> * of_int d"
  proof (cases "py_upper (currency req) = ''USD''")
    case True
    with e acc show ?thesis by simp
  next
    case False
    with e have "expenses p = scaled (JFloat 1) ex" by simp
    then show ?thesis
      using dict_get_scaled_default [OF m, of "JFloat 1" JNull] acc by simp
  qed
  with h show ?thesis by simp
qed

lemma accommodation_all_fail:
  "dict_get (expenses (all_fail_state req d)) ''accommodation'' JNull
     = JFloat (2000 * of_int (max 1 d))"
proof -
  have "round2 (rat_of_int (2000 * max 1 d)) = of_int (2000 * max 1 d)"
    by (rule round2_of_int)
  then have "round2 (2000 * rat_of_int (max 1 d)) = 2000 * of_int (max 1 d)" by simp
  then show ?thesis
    by (simp add: all_fail_state_def accommodation_v2)
qed

text \<open>
  C8, as the code has it. When the Hotels stage falls back it writes a list of one hotel.
  In the earlier variant its nightly price is the budget divided by 14, rounded down; in
  the later variant it is 2000. Neither depends on the length of the trip. When every
  provider fails, the accommodation cost is that price times the day count: 2000 times
  the clamped day count in the later variant, and the floor of budget / 14 times the day
  count in the earlier one.
\<close>

theorem hotel_fallback_price:
  "(isl (loads_response (hotels_response w1)) \<longrightarrow>
      hotels (hotel_agent_v1 w1 s1)
        = JArr [budget_hotel (of_int \<lfloor>budget (trip_request s1) / 14\<rfloor>)
                  (destination (trip_request s1))]
      \<and> price_per_night (budget_hotel (of_int \<lfloor>budget (trip_request s1) / 14\<rfloor>)
                           (destination (trip_request s1)))
          = JFloat (of_int \<lfloor>budget (trip_request s1) / 14\<rfloor>))
   \<and> (isl (parse_reply (hotels_reply w)) \<longrightarrow>
        hotels (hotel_agent w s) = JArr [ritz] \<and> price_per_night ritz = JFloat 2000)
   \<and> (date_diff req = Inr d \<longrightarrow>
        plan_trip failing_env req = Inr (all_fail_state req d)
        \<and> hotels (all_fail_state req d) = JArr [ritz]
        \<and> dict_get (expenses (all_fail_state req d)) ''accommodation'' JNull
            = JFloat (2000 * of_int (max 1 d)))
   \<and> (plan_trip_v1 failing_env_v1 req1 = Planned p \<and> date_diff req1 = Inr d1 \<longrightarrow>
        hotels p = JArr [budget_hotel (of_int \<lfloor>budget req1 / 14\<rfloor>) (destination req1)]
        \<and> num_val (dict_get (expenses p) ''accommodation'' JNull)
            = of_int \<lfloor>budget req1 / 14\<rfloor> * of_int d1)"
proof -
  have a: "isl (loads_response (hotels_response w1)) \<longrightarrow>
      hotels (hotel_agent_v1 w1 s1)
        = JArr [budget_hotel (of_int \<lfloor>budget (trip_request s1) / 14\<rfloor>)
                  (destination (trip_request s1))]"
    by (cases "loads_response (hotels_response w1)")
       (simp_all add: hotel_agent_v1_def hotels_fallback_v1_single)
  have b: "isl (parse_reply (hotels_reply w)) \<longrightarrow> hotels (hotel_agent w s) = JArr [ritz]"
    by (cases "parse_reply (hotels_reply w)")
       (simp_all add: hotel_agent_effect hotels_fallback_def ritz_def)
  have r: "price_per_night ritz = JFloat 2000"
    by (simp add: price_per_night_def ritz_def dict_get_def)
  have c: "date_diff req = Inr d \<longrightarrow>
        plan_trip failing_env req = Inr (all_fail_state req d)
        \<and> hotels (all_fail_state req d) = JArr [ritz]"
    using plan_trip_all_fail [of req d]
    by (simp add: all_fail_state_def hotels_fallback_def ritz_def)
  have e: "plan_trip_v1 failing_env_v1 req1 = Planned p \<and> date_diff req1 = Inr d1 \<longrightarrow>
        hotels p = JArr [budget_hotel (of_int \<lfloor>budget req1 / 14\<rfloor>) (destination req1)]
        \<and> num_val (dict_get (expenses p) ''accommodation'' JNull)
            = of_int \<lfloor>budget req1 / 14\<rfloor> * of_int d1"
    using accommodation_all_fail_v1 [of req1 p d1] by (simp add: hotels_fallback_v1_single)
  show ?thesis
    using a b r c e price_budget_hotel accommodation_all_fail by blast
qed

theorem hotel_fallback_price_witness:
  "isl (loads_response (hotels_response failing_env_v1))
   \<and> hotels (hotel_agent_v1 failing_env_v1 (initial_state_v1 lisbon_request))
       = JArr [budget_hotel 85 ''Lisbon, Portugal'']
   \<and> isl (parse_reply (hotels_reply failing_env))
   \<and> hotels (hotel_agent failing_env (initial_state lisbon_request)) = JArr [ritz]
   \<and> date_diff lisbon_request = Inr 3
   \<and> plan_trip failing_env lisbon_request = Inr (all_fail_state lisbon_request 3)
   \<and> dict_get (expenses (all_fail_state lisbon_request 3)) ''accommodation'' JNull
       = JFloat (2000 * 3)
   \<and> plan_trip_v1 failing_env_v1 lisbon_request = Planned lisbon_plan_v1
   \<and> num_val (dict_get (expenses lisbon_plan_v1) ''accommodation'' JNull) = 85 * 3"
proof -
  have f: "isl (loads_response (hotels_response failing_env_v1))"
    "isl (parse_reply (hotels_reply failing_env))"
    by (simp_all add: loads_response_def parse_reply_def failing_env_v1_def failing_env_def)
  have t: "trip_request (initial_state_v1 lisbon_request) = lisbon_request"
    by (simp add: initial_state_v1_def)
  have b: "\<lfloor>budget lisbon_request / 14\<rfloor> = 85" "destination lisbon_request = ''Lisbon, Portugal''"
    by code_simp+
  show ?thesis
    using hotel_fallback_price [of failing_env_v1 "initial_state_v1 lisbon_request" failing_env
        "initial_state lisbon_request" lisbon_request 3 lisbon_request lisbon_plan_v1 3]
      f t b date_diff_lisbon plan_trip_v1_lisbon
    by simp
qed

text \<open>
  C8 as stated fails: the fallback price is no fraction of the budget divided by the
  trip length. With the budget 1200 the earlier variant prices the fallback hotel at 85 a
  night for a trip of 3 days and for a trip of 6 days, which are different fractions of
  budget per day; the later variant prices it at 2000 for both, more than the budget.
\<close>

theorem fallback_price_ignores_trip_length:
  "date_diff lisbon_request = Inr 3 \<and> date_diff long_request = Inr 6
   \<and> budget lisbon_request = 1200 \<and> budget long_request = 1200
   \<and> hotels (hotel_agent_v1 failing_env_v1 (initial_state_v1 lisbon_request))
       = JArr [budget_hotel 85 ''Lisbon, Portugal'']
   \<and> hotels (hotel_agent_v1 failing_env_v1 (initial_state_v1 long_request))
       = JArr [budget_hotel 85 ''Lisbon, Portugal'']
   \<and> (85 :: rat) * 3 / 1200 \<noteq> 85 * 6 / 1200
   \<and> hotels (hotel_agent failing_env (initial_state lisbon_request)) = JArr [ritz]
   \<and> hotels (hotel_agent failing_env (initial_state long_request)) = JArr [ritz]
   \<and> price_per_night ritz = JFloat 2000"
  by code_simp

end
